theory Spec2Isabelle
  imports Main "HOL-Library.Word" "HOL-Library.AList"
begin

section \<open>Data model of tinykv/raft/raft.go\<close>

text \<open>
  Go's \<open>uint64\<close> is a 64-bit word: \<open>+\<close> and \<open>-\<close> wrap around, \<open><\<close> and
  \<open>\<le>\<close> compare unsigned values. Go's \<open>int\<close> (tick counters, \<open>len\<close>, quorum
  sizes) is modelled as an unbounded integer or a natural number: no value of
  that type comes near its bounds in the code under study.
\<close>

type_synonym u64 = "64 word"

text \<open>\<open>const None uint64 = 0\<close>: the placeholder node id.\<close>

definition None_id :: u64 where
  "None_id = 0"

datatype StateType = StateFollower | StateCandidate | StateLeader

text \<open>
  A panic and a \<open>log.Fatal\<close> both end the process; the model returns them as
  the left summand of every fallible operation, with the message of the source.
\<close>

datatype crash = Panic string | Fatal string

text \<open>The error values that travel as Go \<open>error\<close> results.\<close>

datatype err =
    ErrProposalDropped
  | ErrCompacted
  | ErrUnavailable
  | ErrSnapshotTemporarilyUnavailable

definition andThen :: "crash + 'a \<Rightarrow> ('a \<Rightarrow> crash + 'b) \<Rightarrow> crash + 'b" where
  "andThen x f = (case x of Inl c \<Rightarrow> Inl c | Inr v \<Rightarrow> f v)"

subsection \<open>Progress\<close>

text \<open>\<open>type Progress struct { Match, Next uint64 }\<close>\<close>

record Progress =
  Match :: u64
  Next :: u64

text \<open>
  \<open>maybeUpdate\<close> mutates the record behind the pointer and returns
  \<open>updated\<close>; the model returns the flag and the new record. \<open>n + 1\<close> wraps.
\<close>

definition maybeUpdate :: "Progress \<Rightarrow> u64 \<Rightarrow> bool \<times> Progress" where
  "maybeUpdate pr n =
     (let updated = (Match pr < n);
          pr1 = (if Match pr < n then pr\<lparr>Match := n\<rparr> else pr);
          pr2 = (if Next pr1 < n + 1 then pr1\<lparr>Next := n + 1\<rparr> else pr1)
      in (updated, pr2))"

text \<open>
  \<open>maybeDecrTo(rejected, last)\<close>: a rejection at or below \<open>Match\<close> is
  stale; otherwise \<open>Next := min(rejected, last + 1)\<close>, raised to 1 when it is
  below 1. The parameter \<open>last\<close> is written \<open>lastidx\<close> here.
\<close>

definition maybeDecrTo :: "Progress \<Rightarrow> u64 \<Rightarrow> u64 \<Rightarrow> bool \<times> Progress" where
  "maybeDecrTo pr rejected lastidx =
     (if rejected \<le> Match pr then (False, pr)
      else
        (let pr1 = pr\<lparr>Next := min rejected (lastidx + 1)\<rparr>;
             pr2 = (if Next pr1 < 1 then pr1\<lparr>Next := 1\<rparr> else pr1)
         in (True, pr2)))"

subsection \<open>Protocol buffers: entries, snapshots, messages\<close>

text \<open>
  The generated package \<open>eraftpb\<close> is not part of the sources: raft.go only
  uses its types. They are modelled from the data model and the message list
  of the specification, with the field names that raft.go reads and writes. A
  Go pointer field that may be nil is an \<open>option\<close>, and reading through a
  nil pointer is a panic.
\<close>

text \<open>Modelled from the spec: the entry kinds \<open>Normal\<close> and \<open>ConfChange\<close> of the missing eraftpb.\<close>

datatype EntryType = EntryNormal | EntryConfChange

text \<open>
  Modelled from the spec: \<open>pb.Entry\<close> of the missing eraftpb,
  \<open>{term, index, kind, payload}\<close>; the fields \<open>Term\<close> and \<open>Index\<close> are
  named \<open>ETerm\<close> and \<open>EIndex\<close>.
\<close>

record Entry =
  EntryType :: EntryType
  ETerm :: u64
  EIndex :: u64
  Data :: "8 word list"

text \<open>Modelled from the spec: \<open>pb.ConfState\<close> of the missing eraftpb, \<open>{nodes}\<close>.\<close>

record ConfState =
  Nodes :: "u64 list"

text \<open>
  Modelled from the spec: \<open>pb.SnapshotMetadata\<close> of the missing eraftpb,
  \<open>{index, term, conf_state}\<close>; \<open>ConfState\<close> is a pointer, \<open>Index\<close> and
  \<open>Term\<close> are named \<open>SIndex\<close> and \<open>STerm\<close>.
\<close>

record SnapshotMetadata =
  ConfState :: "ConfState option"
  SIndex :: u64
  STerm :: u64

text \<open>
  Modelled from the spec: \<open>pb.Snapshot\<close> of the missing eraftpb,
  \<open>{data, metadata}\<close>; \<open>Metadata\<close> is a pointer, \<open>Data\<close> is named
  \<open>SData\<close>.
\<close>

record Snapshot =
  SData :: "8 word list"
  Metadata :: "SnapshotMetadata option"

text \<open>
  Modelled from the spec: \<open>pb.HardState\<close> of the missing eraftpb,
  \<open>{term, vote, commit}\<close>, the fields named \<open>HTerm\<close>, \<open>HVote\<close> and
  \<open>HCommit\<close>.
\<close>

record HardState =
  HTerm :: u64
  HVote :: u64
  HCommit :: u64

text \<open>
  Modelled from the spec: \<open>pb.MessageType\<close> of the missing eraftpb, the twelve
  message types of the specification under the names raft.go uses; the first
  one is the zero value.
\<close>

datatype MessageType =
    MsgHup
  | MsgBeat
  | MsgPropose
  | MsgAppend
  | MsgAppendResponse
  | MsgRequestVote
  | MsgRequestVoteResponse
  | MsgSnapshot
  | MsgHeartbeat
  | MsgHeartbeatResponse
  | MsgTransferLeader
  | MsgTimeoutNow

text \<open>
  Modelled from the spec: \<open>pb.Message\<close> of the missing eraftpb, with the
  fields that raft.go reads and writes; \<open>Term\<close>, \<open>Index\<close> and
  \<open>Snapshot\<close> are named \<open>MTerm\<close>, \<open>MIndex\<close> and \<open>MSnapshot\<close>, and
  \<open>Snapshot\<close> is a pointer. The entries are held by value.
\<close>

record Message =
  MsgType :: MessageType
  To :: u64
  From :: u64
  MTerm :: u64
  LogTerm :: u64
  MIndex :: u64
  Entries :: "Entry list"
  Commit :: u64
  MSnapshot :: "Snapshot option"
  Reject :: bool
  RejectHint :: u64

text \<open>\<open>pb.Message{}\<close>: every field at its zero value.\<close>

definition emptyMessage :: Message where
  "emptyMessage =
     \<lparr>MsgType = MsgHup, To = 0, From = 0, MTerm = 0, LogTerm = 0, MIndex = 0,
      Entries = [], Commit = 0, MSnapshot = None, Reject = False, RejectHint = 0\<rparr>"

subsection \<open>RaftLog\<close>

text \<open>
  The file log.go (type \<open>RaftLog\<close> and its methods) and the \<open>Storage\<close>
  implementation are not part of the sources: raft.go only calls them. Every
  definition of this subsection is modelled from the specification's section
  on RaftLog and on the Storage contract, and says so.
\<close>

text \<open>
  Modelled from the spec: the type \<open>RaftLog\<close> of the missing log.go. The log
  holds the entries after the snapshot boundary, densely indexed from
  \<open>first_index = snap_index + 1\<close>; \<open>snap_index\<close> and \<open>snap_term\<close> are
  the boundary \<open>first_index - 1\<close> and its term; \<open>committed\<close> and
  \<open>applied\<close> are the offsets of that name; \<open>pending_snapshot\<close> is the
  snapshot set by restore; \<open>storage_snapshot\<close> is what the Storage answers
  to \<open>snapshot()\<close>.
\<close>

record RaftLog =
  entries :: "Entry list"
  snap_index :: u64
  snap_term :: u64
  committed :: u64
  applied :: u64
  pending_snapshot :: "Snapshot option"
  storage_snapshot :: "err + Snapshot"

text \<open>Modelled from the spec: \<open>first_index\<close> of the missing log.go, one past the snapshot boundary.\<close>

definition RaftLog_firstIndex :: "RaftLog \<Rightarrow> u64" where
  "RaftLog_firstIndex l = snap_index l + 1"

text \<open>
  Modelled from the spec: \<open>last_index()\<close> of the missing log.go, the last index
  present; with an empty log, the snapshot boundary.
\<close>

definition RaftLog_LastIndex :: "RaftLog \<Rightarrow> u64" where
  "RaftLog_LastIndex l = snap_index l + word_of_nat (length (entries l))"

text \<open>
  Modelled from the spec: \<open>term(i)\<close> of the missing log.go; Compacted if
  \<open>i < first_index - 1\<close>, Unavailable if \<open>i > last_index\<close>.
\<close>

definition RaftLog_Term :: "RaftLog \<Rightarrow> u64 \<Rightarrow> err + u64" where
  "RaftLog_Term l i =
     (if i < snap_index l then Inl ErrCompacted
      else if RaftLog_LastIndex l < i then Inl ErrUnavailable
      else if i = snap_index l then Inr (snap_term l)
      else Inr (ETerm (entries l ! (unat (i - snap_index l) - 1))))"

text \<open>
  Modelled from the spec: \<open>last_term()\<close> of the missing log.go, the term of the
  last entry; with an empty log, that of the snapshot boundary.
\<close>

definition RaftLog_lastTerm :: "RaftLog \<Rightarrow> u64" where
  "RaftLog_lastTerm l = (if entries l = [] then snap_term l else ETerm (last (entries l)))"

text \<open>
  Modelled from the spec: \<open>entries(lo)\<close> of the missing log.go, the slice
  \<open>[lo, last_index]\<close>; Compacted if \<open>lo < first_index\<close>.
\<close>

definition RaftLog_Entries :: "RaftLog \<Rightarrow> u64 \<Rightarrow> err + Entry list" where
  "RaftLog_Entries l lo =
     (if lo < RaftLog_firstIndex l then Inl ErrCompacted
      else Inr (drop (unat lo - unat (RaftLog_firstIndex l)) (entries l)))"

text \<open>
  Modelled from the spec: \<open>slice(lo, hi)\<close> of the missing log.go, the entries
  with index in \<open>[lo, hi)\<close> (the driver's committed entries are the slice
  \<open>(applied, committed]\<close>); Compacted below \<open>first_index\<close>, Unavailable
  past \<open>last_index\<close>.
\<close>

definition RaftLog_slice :: "RaftLog \<Rightarrow> u64 \<Rightarrow> u64 \<Rightarrow> err + Entry list" where
  "RaftLog_slice l lo hi =
     (if lo < RaftLog_firstIndex l then Inl ErrCompacted
      else if RaftLog_LastIndex l + 1 < hi then Inl ErrUnavailable
      else Inr (take (unat hi - unat lo)
                  (drop (unat lo - unat (RaftLog_firstIndex l)) (entries l))))"

text \<open>
  Modelled from the spec: \<open>match_term(i, t)\<close> of the missing log.go, true iff
  \<open>term(i) == t\<close>, errors treated as false.
\<close>

definition RaftLog_matchTerm :: "RaftLog \<Rightarrow> u64 \<Rightarrow> u64 \<Rightarrow> bool" where
  "RaftLog_matchTerm l i t = (RaftLog_Term l i = Inr t)"

text \<open>
  Modelled from the spec: \<open>commit_to(i)\<close> of the missing log.go; monotonic,
  going backward is a fatal error.
\<close>

definition RaftLog_commitTo :: "RaftLog \<Rightarrow> u64 \<Rightarrow> crash + RaftLog" where
  "RaftLog_commitTo l i =
     (if i < committed l then Inl (Fatal ''commit index moved backward'')
      else Inr (l\<lparr>committed := i\<rparr>))"

text \<open>
  Modelled from the spec: \<open>applied_to(i)\<close> of the missing log.go; monotonic,
  going backward is a fatal error.
\<close>

definition RaftLog_appliedTo :: "RaftLog \<Rightarrow> u64 \<Rightarrow> crash + RaftLog" where
  "RaftLog_appliedTo l i =
     (if i < applied l then Inl (Fatal ''applied index moved backward'')
      else Inr (l\<lparr>applied := i\<rparr>))"

text \<open>
  Modelled from the spec: \<open>maybe_commit(max_idx, term)\<close> of the missing log.go;
  advance \<open>committed\<close> to \<open>max_idx\<close> only if \<open>max_idx > committed\<close> and
  \<open>term(max_idx) == term\<close>. The result says whether the commit index moved.
\<close>

definition RaftLog_maybeCommit :: "RaftLog \<Rightarrow> u64 \<Rightarrow> u64 \<Rightarrow> bool \<times> RaftLog" where
  "RaftLog_maybeCommit l maxIndex t =
     (if committed l < maxIndex \<and> RaftLog_Term l maxIndex = Inr t
      then (True, l\<lparr>committed := maxIndex\<rparr>)
      else (False, l))"

text \<open>
  Modelled from the spec: \<open>maybe_append(prev_idx, prev_term, leader_commit,
  entries)\<close> of the missing log.go. If \<open>match_term(prev_idx, prev_term)\<close>: find
  the first incoming entry whose term differs from the log's at its index, drop
  the log from there on and append the incoming entries from that one on;
  advance commit to \<open>min(leader_commit, last_new_index)\<close>; return the new
  last index \<open>prev_idx + |entries|\<close>. Truncating at or below \<open>committed\<close>,
  and appending at an index other than \<open>last_index + 1\<close>, are fatal. Else
  fail (the result None).
\<close>

definition RaftLog_maybeAppend ::
  "RaftLog \<Rightarrow> u64 \<Rightarrow> u64 \<Rightarrow> u64 \<Rightarrow> Entry list \<Rightarrow> crash + (u64 option \<times> RaftLog)" where
  "RaftLog_maybeAppend l index logTerm leaderCommit ents =
     (if RaftLog_matchTerm l index logTerm then
        (let lastnewi = index + word_of_nat (length ents);
             keep = (\<lambda>e. RaftLog_matchTerm l (EIndex e) (ETerm e));
             appended =
               (case dropWhile keep ents of
                  [] \<Rightarrow> Inr l
                | e # rest \<Rightarrow>
                    if EIndex e \<le> committed l
                    then Inl (Fatal ''entry conflicts with a committed entry'')
                    else if RaftLog_LastIndex l + 1 < EIndex e
                    then Inl (Fatal ''appended entry is not at last index + 1'')
                    else Inr (l\<lparr>entries :=
                           take (unat (EIndex e) - unat (RaftLog_firstIndex l)) (entries l)
                             @ e # rest\<rparr>))
         in andThen appended (\<lambda>l1.
              andThen (RaftLog_commitTo l1 (min leaderCommit lastnewi)) (\<lambda>l2.
                Inr (Some lastnewi, l2))))
      else Inr (None, l))"

text \<open>
  Modelled from the spec: \<open>restore(snapshot)\<close> of the missing log.go; discard
  all entries, set \<open>pending_snapshot\<close>, and move the offsets so that
  \<open>first_index - 1 = snapshot.index\<close> and \<open>committed = snapshot.index\<close>.
  The caller has read the metadata \<open>md\<close> of the snapshot.
\<close>

definition RaftLog_restore :: "RaftLog \<Rightarrow> Snapshot \<Rightarrow> SnapshotMetadata \<Rightarrow> RaftLog" where
  "RaftLog_restore l s md =
     l\<lparr>entries := [], pending_snapshot := Some s,
       snap_index := SIndex md, snap_term := STerm md, committed := SIndex md\<rparr>"

text \<open>
  Modelled from the spec: \<open>snapshot()\<close> of the missing log.go, the answer of the
  Storage, which may be SnapshotTemporarilyUnavailable.
\<close>

definition RaftLog_snapshot :: "RaftLog \<Rightarrow> err + Snapshot" where
  "RaftLog_snapshot l = storage_snapshot l"

text \<open>
  Modelled from the spec: \<open>IsEmptySnap\<close> of the missing util.go. Indices are
  dense from 1, so a snapshot without metadata or at index 0 holds nothing.
\<close>

definition IsEmptySnap :: "Snapshot \<Rightarrow> bool" where
  "IsEmptySnap s = (case Metadata s of None \<Rightarrow> True | Some md \<Rightarrow> SIndex md = 0)"

text \<open>
  Modelled from the spec: \<open>IsEmptyHardState\<close> of the missing util.go; the hard
  state \<open>{term, vote, commit}\<close> with every field zero.
\<close>

definition IsEmptyHardState :: "HardState \<Rightarrow> bool" where
  "IsEmptyHardState hs = (HTerm hs = 0 \<and> HVote hs = 0 \<and> HCommit hs = 0)"

subsection \<open>Config and the Raft structure\<close>

text \<open>
  Modelled from the spec: the \<open>Storage\<close> interface, whose implementation is
  missing, as the record of its answers: \<open>initial_state()\<close> (an error, or the
  hard state and the configuration state), the entries it holds after its
  snapshot boundary, that boundary, and \<open>snapshot()\<close>.
\<close>

record Storage =
  InitialState :: "err + (HardState \<times> ConfState)"
  st_entries :: "Entry list"
  st_snap_index :: u64
  st_snap_term :: u64
  st_snapshot :: "err + Snapshot"

text \<open>
  \<open>type Config struct\<close>; the field \<open>Storage\<close> is named \<open>CStorage\<close>, and a
  nil \<open>Storage\<close> is \<open>None\<close>.
\<close>

record Config =
  ID :: u64
  peers :: "u64 list"
  ElectionTick :: int
  HeartbeatTick :: int
  CStorage :: "Storage option"
  Applied :: u64

text \<open>
  Modelled from the spec: \<open>newLog(storage)\<close> of the missing log.go; the log
  starts with the entries of the Storage after its snapshot boundary, and
  \<open>committed\<close> and \<open>applied\<close> at the lowest value the invariant chain
  \<open>first_index - 1 \<le> applied \<le> committed\<close> allows (\<open>loadState\<close> then
  raises \<open>committed\<close> to the stored commit).
\<close>

definition newLog :: "Storage \<Rightarrow> RaftLog" where
  "newLog st =
     \<lparr>entries = st_entries st, snap_index = st_snap_index st, snap_term = st_snap_term st,
      committed = st_snap_index st, applied = st_snap_index st,
      pending_snapshot = None, storage_snapshot = st_snapshot st\<rparr>"

text \<open>
  \<open>type Raft struct\<close>. The maps \<open>Prs\<close> and \<open>votes\<close> are association lists
  with distinct keys (written with \<open>map_of\<close>, \<open>AList.update\<close>); Go ranges
  over a map in an unspecified order, the model in the order of the list.
  \<open>id\<close> is named \<open>raft_id\<close>. The last two fields are not in the structure:
  they are the state of the process-wide \<open>globalRand\<close>, the sequence of its
  draws and the number of draws made so far.
\<close>

record Raft =
  raft_id :: u64
  Term :: u64
  Vote :: u64
  RaftLog :: RaftLog
  Prs :: "(u64 \<times> Progress) list"
  State :: StateType
  votes :: "(u64 \<times> bool) list"
  msgs :: "Message list"
  Lead :: u64
  heartbeatTimeout :: int
  electionTimeout :: int
  randomizedElectionTimeout :: int
  leadTransferee :: u64
  PendingConfIndex :: u64
  electionElapsed :: int
  heartbeatElapsed :: int
  globalRand :: "nat \<Rightarrow> nat"
  globalRandCalls :: nat

section \<open>The operations of raft.go\<close>

text \<open>\<open>Config.validate\<close>: the error message, or None for nil.\<close>

definition validate :: "Config \<Rightarrow> string option" where
  "validate c =
     (if ID c = None_id then Some ''cannot use none as id''
      else if HeartbeatTick c \<le> 0 then Some ''heartbeat tick must be greater than 0''
      else if ElectionTick c \<le> HeartbeatTick c
      then Some ''election tick must be greater than heartbeat tick''
      else if CStorage c = None then Some ''storage cannot be nil''
      else None)"

definition quorum :: "Raft \<Rightarrow> int" where
  "quorum r = int (length (Prs r)) div 2 + 1"

text \<open>\<open>send\<close> stamps the sender, checks the term and appends to the mailbox.\<close>

definition send :: "Raft \<Rightarrow> Message \<Rightarrow> crash + Raft" where
  "send r m0 =
     (let m = m0\<lparr>From := raft_id r\<rparr> in
      if MsgType m = MsgRequestVote \<or> MsgType m = MsgRequestVoteResponse then
        (if MTerm m = 0 then Inl (Panic ''term should be set when sending'')
         else Inr (r\<lparr>msgs := msgs r @ [m]\<rparr>))
      else if MTerm m \<noteq> 0 then Inl (Panic ''term should not be set when sending'')
      else if MsgType m \<noteq> MsgPropose then Inr (r\<lparr>msgs := msgs r @ [m\<lparr>MTerm := Term r\<rparr>]\<rparr>)
      else Inr (r\<lparr>msgs := msgs r @ [m]\<rparr>))"

definition getProgress :: "Raft \<Rightarrow> u64 \<Rightarrow> Progress option" where
  "getProgress r i = map_of (Prs r) i"

text \<open>
  \<open>sendAppend\<close>: \<open>pr.Next\<close> through a nil \<open>pr\<close> is a panic. When the term or
  the entries cannot be read, a snapshot is sent, or nothing when it is
  temporarily unavailable; the branch that sends the entries is a placeholder
  that panics.
\<close>

definition sendAppend :: "Raft \<Rightarrow> u64 \<Rightarrow> crash + (bool \<times> Raft)" where
  "sendAppend r to =
     (case getProgress r to of
        None \<Rightarrow> Inl (Panic ''nil pointer dereference'')
      | Some pr \<Rightarrow>
          (let m = emptyMessage\<lparr>To := to\<rparr>;
               errt = RaftLog_Term (RaftLog r) (Next pr - 1);
               erre = RaftLog_Entries (RaftLog r) (Next pr)
           in if isl errt \<or> isl erre then
                (case RaftLog_snapshot (RaftLog r) of
                   Inl e \<Rightarrow>
                     if e = ErrSnapshotTemporarilyUnavailable then Inr (False, r)
                     else Inl (Panic ''snapshot error'')
                 | Inr snapshot \<Rightarrow>
                     if IsEmptySnap snapshot then Inl (Panic ''need non-empty snapshot'')
                     else andThen (send r (m\<lparr>MsgType := MsgSnapshot, MSnapshot := Some snapshot\<rparr>))
                            (\<lambda>r1. Inr (True, r1)))
              else Inl (Panic ''Raft: Replication_Step2:::Your code here.'')))"

text \<open>\<open>sendHeartbeat\<close> is a placeholder that panics.\<close>

definition sendHeartbeat :: "Raft \<Rightarrow> u64 \<Rightarrow> crash + Raft" where
  "sendHeartbeat r to = Inl (Panic ''Raft: Leader_Election_Step7:::Your code here.'')"

text \<open>
  \<open>forEachProgress\<close>, for a callback that works on the node and the peer's
  id: the ids are those of the map when the loop starts.
\<close>

fun forEachId :: "(Raft \<Rightarrow> u64 \<Rightarrow> crash + Raft) \<Rightarrow> u64 list \<Rightarrow> Raft \<Rightarrow> crash + Raft" where
  "forEachId f [] r = Inr r"
| "forEachId f (i # ids) r = andThen (f r i) (forEachId f ids)"

definition bcastAppend :: "Raft \<Rightarrow> crash + Raft" where
  "bcastAppend r =
     forEachId (\<lambda>r1 i. if i = raft_id r1 then Inr r1
                        else andThen (sendAppend r1 i) (\<lambda>(sent, r2). Inr r2))
       (map fst (Prs r)) r"

definition bcastHeartbeat :: "Raft \<Rightarrow> crash + Raft" where
  "bcastHeartbeat r =
     forEachId (\<lambda>r1 i. if i = raft_id r1 then Inr r1 else sendHeartbeat r1 i)
       (map fst (Prs r)) r"

text \<open>
  \<open>maybeCommit\<close>: the \<open>Match\<close> values sorted in increasing order, read at
  \<open>len - quorum\<close> (an index out of range is a panic), and handed to the log
  with the node's term. The type \<open>uint64Slice\<close> that \<open>sort.Sort\<close> is
  called on is declared in the missing util.go; its order is taken to be the
  increasing order of the values.
\<close>

definition maybeCommit :: "Raft \<Rightarrow> crash + (bool \<times> Raft)" where
  "maybeCommit r =
     (let matchIndex = sort (map (\<lambda>(i, p). Match p) (Prs r));
          k = int (length matchIndex) - quorum r
      in if k < 0 \<or> int (length matchIndex) \<le> k then Inl (Panic ''index out of range'')
         else
           (let mci = matchIndex ! nat k;
                (moved, l) = RaftLog_maybeCommit (RaftLog r) mci (Term r)
            in Inr (moved, r\<lparr>RaftLog := l\<rparr>)))"

definition abortLeaderTransfer :: "Raft \<Rightarrow> Raft" where
  "abortLeaderTransfer r = r\<lparr>leadTransferee := None_id\<rparr>"

text \<open>
  \<open>resetRandomizedElectionTimeout\<close>: \<open>Intn(n)\<close> panics unless \<open>0 < n\<close>, and
  else draws from \<open>[0, n)\<close>.
\<close>

definition resetRandomizedElectionTimeout :: "Raft \<Rightarrow> crash + Raft" where
  "resetRandomizedElectionTimeout r =
     (if electionTimeout r \<le> 0 then Inl (Panic ''invalid argument to Intn'')
      else Inr (r\<lparr>randomizedElectionTimeout :=
                   electionTimeout r + int (globalRand r (globalRandCalls r)) mod electionTimeout r,
                 globalRandCalls := Suc (globalRandCalls r)\<rparr>))"

definition reset :: "Raft \<Rightarrow> u64 \<Rightarrow> crash + Raft" where
  "reset r t =
     (let r1 = (if Term r \<noteq> t then r\<lparr>Term := t, Vote := None_id\<rparr> else r);
          r2 = r1\<lparr>Lead := None_id, electionElapsed := 0, heartbeatElapsed := 0\<rparr>
      in andThen (resetRandomizedElectionTimeout r2) (\<lambda>r3.
           (let r4 = abortLeaderTransfer r3;
                li = RaftLog_LastIndex (RaftLog r4)
            in Inr (r4\<lparr>votes := [],
                      Prs := map (\<lambda>(i, pr). (i, \<lparr>Match = (if i = raft_id r4 then li else 0),
                                                   Next = li + 1\<rparr>)) (Prs r4),
                      PendingConfIndex := 0\<rparr>))))"

text \<open>\<open>appendEntry\<close> is a placeholder: it panics after reading the last index.\<close>

definition appendEntry :: "Raft \<Rightarrow> Entry list \<Rightarrow> crash + Raft" where
  "appendEntry r es = Inl (Panic ''Raft: Replication_Step1:::Your code here.'')"

definition becomeFollower :: "Raft \<Rightarrow> u64 \<Rightarrow> u64 \<Rightarrow> crash + Raft" where
  "becomeFollower r t lead =
     andThen (reset r t) (\<lambda>r1. Inr (r1\<lparr>Lead := lead, State := StateFollower\<rparr>))"

text \<open>\<open>becomeCandidate\<close> is a placeholder that panics.\<close>

definition becomeCandidate :: "Raft \<Rightarrow> crash + Raft" where
  "becomeCandidate r = Inl (Panic ''Raft: Leader_Election_Step3:::Your code here.'')"

definition becomeLeader :: "Raft \<Rightarrow> crash + Raft" where
  "becomeLeader r =
     andThen (reset r (Term r)) (\<lambda>r1.
       (let r2 = r1\<lparr>Lead := raft_id r1, State := StateLeader\<rparr>;
            r3 = r2\<lparr>PendingConfIndex := RaftLog_LastIndex (RaftLog r2)\<rparr>
        in appendEntry r3 [\<lparr>EntryType = EntryNormal, ETerm = 0, EIndex = 0, Data = []\<rparr>]))"

text \<open>\<open>poll\<close> records the first answer of a voter and counts the grants.\<close>

definition poll :: "Raft \<Rightarrow> u64 \<Rightarrow> MessageType \<Rightarrow> bool \<Rightarrow> int \<times> Raft" where
  "poll r i t v =
     (let vs = (case map_of (votes r) i of None \<Rightarrow> votes r @ [(i, v)] | Some old \<Rightarrow> votes r)
      in (int (length (filter snd vs)), r\<lparr>votes := vs\<rparr>))"

text \<open>
  \<open>campaign\<close>: after \<open>becomeCandidate\<close>, a node whose own vote is a quorum
  reaches a placeholder that panics; any other node sends a vote request to
  every peer.
\<close>

definition campaign :: "Raft \<Rightarrow> crash + Raft" where
  "campaign r =
     andThen (becomeCandidate r) (\<lambda>r1.
       (let t = Term r1;
            (granted, r2) = poll r1 (raft_id r1) MsgRequestVoteResponse True
        in if quorum r2 = granted
           then Inl (Panic ''Raft: Leader_Election_Step4:::Your code here.'')
           else forEachId
                  (\<lambda>r3 i. if i = raft_id r3 then Inr r3
                           else send r3 (emptyMessage\<lparr>MTerm := t, To := i, MsgType := MsgRequestVote,
                                   MIndex := RaftLog_LastIndex (RaftLog r3),
                                   LogTerm := RaftLog_lastTerm (RaftLog r3)\<rparr>))
                  (map fst (Prs r2)) r2))"

text \<open>
  \<open>setProgress\<close> stores a fresh record under the id. \<open>storeProgress\<close> is
  the write through the pointer that \<open>getProgress\<close> returned: the map keeps
  the record that \<open>maybeUpdate\<close> or \<open>maybeDecrTo\<close> changed in place.
\<close>

definition setProgress :: "Raft \<Rightarrow> u64 \<Rightarrow> u64 \<Rightarrow> u64 \<Rightarrow> Raft" where
  "setProgress r i mtch nxt = r\<lparr>Prs := AList.update i \<lparr>Match = mtch, Next = nxt\<rparr> (Prs r)\<rparr>"

definition storeProgress :: "Raft \<Rightarrow> u64 \<Rightarrow> Progress \<Rightarrow> Raft" where
  "storeProgress r i pr = r\<lparr>Prs := AList.update i pr (Prs r)\<rparr>"

definition promotable :: "Raft \<Rightarrow> bool" where
  "promotable r = (map_of (Prs r) (raft_id r) \<noteq> None)"

definition sendTimeoutNow :: "Raft \<Rightarrow> u64 \<Rightarrow> crash + Raft" where
  "sendTimeoutNow r to = send r (emptyMessage\<lparr>To := to, MsgType := MsgTimeoutNow\<rparr>)"

fun numOfPendingConf :: "Entry list \<Rightarrow> int" where
  "numOfPendingConf [] = 0"
| "numOfPendingConf (e # ents) =
     (if EntryType e = EntryConfChange then 1 else 0) + numOfPendingConf ents"

definition handleAppendEntries :: "Raft \<Rightarrow> Message \<Rightarrow> crash + Raft" where
  "handleAppendEntries r m =
     (if MIndex m < committed (RaftLog r) then
        send r (emptyMessage\<lparr>To := From m, MsgType := MsgAppendResponse,
                  MIndex := committed (RaftLog r)\<rparr>)
      else
        andThen (RaftLog_maybeAppend (RaftLog r) (MIndex m) (LogTerm m) (Commit m) (Entries m))
          (\<lambda>(res, l).
             (let r1 = r\<lparr>RaftLog := l\<rparr> in
              case res of
                Some mlastIndex \<Rightarrow>
                  send r1 (emptyMessage\<lparr>To := From m, MsgType := MsgAppendResponse,
                             MIndex := mlastIndex\<rparr>)
              | None \<Rightarrow>
                  send r1 (emptyMessage\<lparr>To := From m, MsgType := MsgAppendResponse,
                             MIndex := MIndex m, Reject := True,
                             RejectHint := RaftLog_LastIndex (RaftLog r1)\<rparr>))))"

definition handleHeartbeat :: "Raft \<Rightarrow> Message \<Rightarrow> crash + Raft" where
  "handleHeartbeat r m =
     andThen (RaftLog_commitTo (RaftLog r) (Commit m)) (\<lambda>l.
       send (r\<lparr>RaftLog := l\<rparr>) (emptyMessage\<lparr>To := From m, MsgType := MsgHeartbeatResponse\<rparr>))"

fun restoreNode :: "Raft \<Rightarrow> u64 list \<Rightarrow> Raft" where
  "restoreNode r [] = r"
| "restoreNode r (n # nodes) =
     (let nxt = RaftLog_LastIndex (RaftLog r) + 1;
          mtch = (if n = raft_id r then nxt - 1 else 0)
      in restoreNode (setProgress r n mtch nxt) nodes)"

text \<open>
  \<open>restore\<close>: a snapshot at or below \<open>committed\<close> is ignored; one whose
  index and term the log already has only moves the commit index; any other
  one replaces the log and the progress map. Reading \<open>s.Metadata\<close> or
  \<open>s.Metadata.ConfState\<close> through nil is a panic.
\<close>

definition restore :: "Raft \<Rightarrow> Snapshot \<Rightarrow> crash + (bool \<times> Raft)" where
  "restore r s =
     (case Metadata s of
        None \<Rightarrow> Inl (Panic ''nil pointer dereference'')
      | Some md \<Rightarrow>
          if SIndex md \<le> committed (RaftLog r) then Inr (False, r)
          else if RaftLog_matchTerm (RaftLog r) (SIndex md) (STerm md) then
            andThen (RaftLog_commitTo (RaftLog r) (SIndex md))
              (\<lambda>l. Inr (False, r\<lparr>RaftLog := l\<rparr>))
          else
            (let r1 = r\<lparr>RaftLog := RaftLog_restore (RaftLog r) s md, Prs := []\<rparr> in
             case ConfState md of
               None \<Rightarrow> Inl (Panic ''nil pointer dereference'')
             | Some cs \<Rightarrow> Inr (True, restoreNode r1 (Nodes cs))))"

definition handleSnapshot :: "Raft \<Rightarrow> Message \<Rightarrow> crash + Raft" where
  "handleSnapshot r m =
     (case MSnapshot m of
        None \<Rightarrow> Inl (Panic ''nil pointer dereference'')
      | Some s \<Rightarrow>
          andThen (restore r s) (\<lambda>(restored, r1).
            if restored then
              send r1 (emptyMessage\<lparr>To := From m, MsgType := MsgAppendResponse,
                         MIndex := RaftLog_LastIndex (RaftLog r1)\<rparr>)
            else
              send r1 (emptyMessage\<lparr>To := From m, MsgType := MsgAppendResponse,
                         MIndex := committed (RaftLog r1)\<rparr>)))"

definition loadState :: "Raft \<Rightarrow> HardState \<Rightarrow> crash + Raft" where
  "loadState r hs =
     (if HCommit hs < committed (RaftLog r) \<or> RaftLog_LastIndex (RaftLog r) < HCommit hs
      then Inl (Fatal ''state.commit is out of range'')
      else Inr (r\<lparr>RaftLog := (RaftLog r)\<lparr>committed := HCommit hs\<rparr>,
                 Term := HTerm hs, Vote := HVote hs\<rparr>))"

text \<open>
  \<open>newRaft\<close>; the two last arguments are the state of \<open>globalRand\<close> when the
  node is built. The structure starts with every field that the literal does
  not name at its zero value (\<open>StateFollower\<close> is the zero \<open>StateType\<close>).
\<close>

definition newRaft :: "Config \<Rightarrow> (nat \<Rightarrow> nat) \<Rightarrow> nat \<Rightarrow> crash + Raft" where
  "newRaft c rnd calls =
     (case validate c of
        Some e \<Rightarrow> Inl (Panic e)
      | None \<Rightarrow>
     (case CStorage c of
        None \<Rightarrow> Inl (Panic ''storage cannot be nil'')
      | Some st \<Rightarrow>
     (case InitialState st of
        Inl e \<Rightarrow> Inl (Panic ''InitialState failed'')
      | Inr (hs, cs) \<Rightarrow>
          if Nodes cs \<noteq> [] \<and> peers c \<noteq> []
          then Inl (Panic ''cannot specify both newRaft (peers) and ConfState.(Nodes)'')
          else
            (let ps = (if Nodes cs \<noteq> [] then Nodes cs else peers c);
                 r = \<lparr>raft_id = ID c, Term = 0, Vote = 0, RaftLog = newLog st,
                      Prs = fold (\<lambda>p prs. AList.update p \<lparr>Match = 0, Next = 1\<rparr> prs) ps [],
                      State = StateFollower, votes = [], msgs = [], Lead = None_id,
                      heartbeatTimeout = HeartbeatTick c, electionTimeout = ElectionTick c,
                      randomizedElectionTimeout = 0, leadTransferee = 0, PendingConfIndex = 0,
                      electionElapsed = 0, heartbeatElapsed = 0,
                      globalRand = rnd, globalRandCalls = calls\<rparr>
             in andThen (if \<not> IsEmptyHardState hs then loadState r hs else Inr r) (\<lambda>r1.
                andThen (if 0 < Applied c
                         then andThen (RaftLog_appliedTo (RaftLog r1) (Applied c))
                                (\<lambda>l. Inr (r1\<lparr>RaftLog := l\<rparr>))
                         else Inr r1) (\<lambda>r2.
                becomeFollower r2 (Term r2) None_id))))))"

subsection \<open>Step\<close>

text \<open>
  \<open>Step\<close> and the three role handlers return a Go \<open>error\<close> and leave their
  effect in the structure: the model returns the error (None for nil) and the
  new structure, or the crash that ended the call.
\<close>

type_synonym step_result = "crash + (err option \<times> Raft)"

text \<open>
  The loop of \<open>stepLeader\<close> over the proposed entries: a configuration change
  proposed while another one is pending becomes an empty normal entry,
  otherwise its index becomes \<open>PendingConfIndex\<close>. \<open>i\<close> is the position
  of the first entry of the list in the message.
\<close>

fun proposeEntries :: "Raft \<Rightarrow> nat \<Rightarrow> Entry list \<Rightarrow> Raft \<times> Entry list" where
  "proposeEntries r i [] = (r, [])"
| "proposeEntries r i (e # es) =
     (if EntryType e = EntryConfChange then
        (if applied (RaftLog r) < PendingConfIndex r then
           (let (r1, es1) = proposeEntries r (Suc i) es
            in (r1, \<lparr>EntryType = EntryNormal, ETerm = 0, EIndex = 0, Data = []\<rparr> # es1))
         else
           (let (r1, es1) =
                  proposeEntries
                    (r\<lparr>PendingConfIndex := RaftLog_LastIndex (RaftLog r) + word_of_nat i + 1\<rparr>)
                    (Suc i) es
            in (r1, e # es1)))
      else (let (r1, es1) = proposeEntries r (Suc i) es in (r1, e # es1)))"

definition stepLeader :: "Raft \<Rightarrow> Message \<Rightarrow> step_result" where
  "stepLeader r m =
     (let pr = getProgress r (From m) in
      if pr = None \<and> MsgType m \<noteq> MsgBeat \<and> MsgType m \<noteq> MsgPropose then Inr (None, r)
      else
        (case MsgType m of
           MsgBeat \<Rightarrow> andThen (bcastHeartbeat r) (\<lambda>r1. Inr (None, r1))
         | MsgPropose \<Rightarrow>
             if Entries m = [] then Inl (Fatal ''stepped empty MessageType_MsgPropose'')
             else if map_of (Prs r) (raft_id r) = None then Inr (Some ErrProposalDropped, r)
             else if leadTransferee r \<noteq> None_id then Inr (Some ErrProposalDropped, r)
             else
               (let (r1, es) = proposeEntries r 0 (Entries m) in
                andThen (appendEntry r1 es) (\<lambda>r2.
                andThen (bcastAppend r2) (\<lambda>r3. Inr (None, r3))))
         | MsgAppendResponse \<Rightarrow>
             (case pr of
                None \<Rightarrow> Inl (Panic ''nil pointer dereference'')
              | Some p \<Rightarrow>
                  if Reject m then
                    (let (decreased, p1) = maybeDecrTo p (MIndex m) (RejectHint m);
                         r1 = storeProgress r (From m) p1
                     in if decreased
                        then andThen (sendAppend r1 (From m)) (\<lambda>(sent, r2). Inr (None, r2))
                        else Inr (None, r1))
                  else
                    (let (updated, p1) = maybeUpdate p (MIndex m);
                         r1 = storeProgress r (From m) p1
                     in if updated
                        then Inl (Panic ''Raft: Replication_Step3:::Your code here.'')
                        else Inr (None, r1)))
         | MsgHeartbeatResponse \<Rightarrow>
             (case pr of
                None \<Rightarrow> Inl (Panic ''nil pointer dereference'')
              | Some p \<Rightarrow>
                  if Match p < RaftLog_LastIndex (RaftLog r)
                  then andThen (sendAppend r (From m)) (\<lambda>(sent, r1). Inr (None, r1))
                  else Inr (None, r))
         | MsgTransferLeader \<Rightarrow>
             (case pr of
                None \<Rightarrow> Inl (Panic ''nil pointer dereference'')
              | Some p \<Rightarrow>
                  (let target = From m;
                       lastLeadTransferee = leadTransferee r
                   in if lastLeadTransferee \<noteq> None_id \<and> lastLeadTransferee = target
                      then Inr (None, r)
                      else
                        (let r1 = (if lastLeadTransferee \<noteq> None_id
                                   then abortLeaderTransfer r else r)
                         in if target = raft_id r1 then Inr (None, r1)
                            else
                              (let r2 = r1\<lparr>electionElapsed := 0, leadTransferee := target\<rparr>
                               in if Match p = RaftLog_LastIndex (RaftLog r2)
                                  then andThen (sendTimeoutNow r2 target)
                                         (\<lambda>r3. Inr (None, r3))
                                  else andThen (sendAppend r2 target)
                                         (\<lambda>(sent, r3). Inr (None, r3))))))
         | _ \<Rightarrow> Inr (None, r)))"

text \<open>
  \<open>stepCandidate\<close>: the count of the vote responses ends in a placeholder
  that panics.
\<close>

definition stepCandidate :: "Raft \<Rightarrow> Message \<Rightarrow> step_result" where
  "stepCandidate r m =
     (case MsgType m of
        MsgPropose \<Rightarrow> Inr (Some ErrProposalDropped, r)
      | MsgAppend \<Rightarrow>
          andThen (becomeFollower r (MTerm m) (From m)) (\<lambda>r1.
          andThen (handleAppendEntries r1 m) (\<lambda>r2. Inr (None, r2)))
      | MsgHeartbeat \<Rightarrow>
          andThen (becomeFollower r (MTerm m) (From m)) (\<lambda>r1.
          andThen (handleHeartbeat r1 m) (\<lambda>r2. Inr (None, r2)))
      | MsgSnapshot \<Rightarrow>
          andThen (becomeFollower r (MTerm m) (From m)) (\<lambda>r1.
          andThen (handleSnapshot r1 m) (\<lambda>r2. Inr (None, r2)))
      | MsgRequestVoteResponse \<Rightarrow>
          (let (gr, r1) = poll r (From m) (MsgType m) (\<not> Reject m)
           in Inl (Panic ''Raft: Leader_Election_Step6:::Your code here.''))
      | _ \<Rightarrow> Inr (None, r))"

definition stepFollower :: "Raft \<Rightarrow> Message \<Rightarrow> step_result" where
  "stepFollower r m =
     (case MsgType m of
        MsgPropose \<Rightarrow> Inr (Some ErrProposalDropped, r)
      | MsgAppend \<Rightarrow>
          andThen (handleAppendEntries (r\<lparr>electionElapsed := 0, Lead := From m\<rparr>) m)
            (\<lambda>r1. Inr (None, r1))
      | MsgHeartbeat \<Rightarrow>
          andThen (handleHeartbeat (r\<lparr>electionElapsed := 0, Lead := From m\<rparr>) m)
            (\<lambda>r1. Inr (None, r1))
      | MsgSnapshot \<Rightarrow>
          andThen (handleSnapshot (r\<lparr>electionElapsed := 0, Lead := From m\<rparr>) m)
            (\<lambda>r1. Inr (None, r1))
      | MsgTransferLeader \<Rightarrow>
          if Lead r = None_id then Inr (None, r)
          else andThen (send r (m\<lparr>To := Lead r\<rparr>)) (\<lambda>r1. Inr (None, r1))
      | MsgTimeoutNow \<Rightarrow>
          if promotable r then andThen (campaign r) (\<lambda>r1. Inr (None, r1))
          else Inr (None, r)
      | _ \<Rightarrow> Inr (None, r))"

text \<open>
  The second \<open>switch\<close> of \<open>Step\<close>, on the message type. The vote request
  reaches a placeholder that panics before anything else happens.
\<close>

definition Step_dispatch :: "Raft \<Rightarrow> Message \<Rightarrow> step_result" where
  "Step_dispatch r m =
     (case MsgType m of
        MsgHup \<Rightarrow>
          if State r \<noteq> StateLeader then
            (case RaftLog_slice (RaftLog r) (applied (RaftLog r) + 1) (committed (RaftLog r) + 1) of
               Inl e \<Rightarrow> Inl (Fatal ''unexpected error getting unapplied entries'')
             | Inr ents \<Rightarrow>
                 if numOfPendingConf ents \<noteq> 0 \<and> applied (RaftLog r) < committed (RaftLog r)
                 then Inr (None, r)
                 else andThen (campaign r) (\<lambda>r1. Inr (None, r1)))
          else Inr (None, r)
      | MsgRequestVote \<Rightarrow> Inl (Panic ''Raft: Leader_Election_Step5:::Your code here.'')
      | _ \<Rightarrow>
          (case State r of
             StateFollower \<Rightarrow> stepFollower r m
           | StateCandidate \<Rightarrow> stepCandidate r m
           | StateLeader \<Rightarrow> stepLeader r m))"

text \<open>
  \<open>Step\<close>: the first \<open>switch\<close> handles the term of the message (0 marks a
  local message), the second one the message.
\<close>

definition Step :: "Raft \<Rightarrow> Message \<Rightarrow> step_result" where
  "Step r m =
     (if MTerm m = 0 then Step_dispatch r m
      else if Term r < MTerm m then
        andThen
          (if MsgType m = MsgAppend \<or> MsgType m = MsgHeartbeat \<or> MsgType m = MsgSnapshot
           then becomeFollower r (MTerm m) (From m)
           else becomeFollower r (MTerm m) None_id)
          (\<lambda>r1. Step_dispatch r1 m)
      else if MTerm m < Term r then Inr (None, r)
      else Step_dispatch r m)"

text \<open>Stepping the same message \<open>n\<close> times, stopping at the first crash.\<close>

fun Step_times :: "nat \<Rightarrow> Raft \<Rightarrow> Message \<Rightarrow> crash + Raft" where
  "Step_times 0 r m = Inr r"
| "Step_times (Suc n) r m = andThen (Step r m) (\<lambda>(e, r1). Step_times n r1 m)"

section \<open>The specification's wording of the commit index\<close>

text \<open>
  The specification's words, to be compared with \<open>quorum\<close> and
  \<open>maybeCommit\<close> of the source: \<open>Q = N div 2 + 1\<close> for \<open>N\<close> peers, and
  the \<open>Q\<close>-th highest \<open>match\<close> value, counted from 1 at the highest.
\<close>

definition spec_quorum :: "nat \<Rightarrow> nat" where
  "spec_quorum N = N div 2 + 1"

definition spec_mci :: "u64 list \<Rightarrow> u64" where
  "spec_mci ms = rev (sort ms) ! (spec_quorum (length ms) - 1)"

text \<open>The \<open>Q\<close>-th highest \<open>Match\<close> value over the progress map of a node.\<close>

definition spec_commit_index :: "Raft \<Rightarrow> u64" where
  "spec_commit_index r = spec_mci (map (\<lambda>(i, p). Match p) (Prs r))"

section \<open>Scenario values\<close>

text \<open>
  A three-peer group in the style of the specification's scenarios (peers 1, 2
  and 3, election base 10 ticks, heartbeat 1 tick). Node 1 holds the entries
  \<open>(1, term 2)\<close>, \<open>(2, term 2)\<close> (a configuration change) and
  \<open>(3, term 3)\<close>, has committed index 1 and applied nothing; as the leader
  of term 3 it knows index 3 on itself and index 2 on both peers.
\<close>

definition ex_log :: RaftLog where
  "ex_log =
     \<lparr>entries =
        [\<lparr>EntryType = EntryNormal, ETerm = 2, EIndex = 1, Data = []\<rparr>,
         \<lparr>EntryType = EntryConfChange, ETerm = 2, EIndex = 2, Data = []\<rparr>,
         \<lparr>EntryType = EntryNormal, ETerm = 3, EIndex = 3, Data = []\<rparr>],
      snap_index = 0, snap_term = 0, committed = 1, applied = 0,
      pending_snapshot = None,
      storage_snapshot = Inl ErrSnapshotTemporarilyUnavailable\<rparr>"

definition ex_rand :: "nat \<Rightarrow> nat" where
  "ex_rand n = 7 * n + 3"

definition ex_leader :: Raft where
  "ex_leader =
     \<lparr>raft_id = 1, Term = 3, Vote = 1, RaftLog = ex_log,
      Prs = [(1, \<lparr>Match = 3, Next = 4\<rparr>), (2, \<lparr>Match = 2, Next = 3\<rparr>),
             (3, \<lparr>Match = 2, Next = 3\<rparr>)],
      State = StateLeader, votes = [], msgs = [], Lead = 1,
      heartbeatTimeout = 1, electionTimeout = 10, randomizedElectionTimeout = 13,
      leadTransferee = 0, PendingConfIndex = 0, electionElapsed = 0, heartbeatElapsed = 0,
      globalRand = ex_rand, globalRandCalls = 0\<rparr>"

definition ex_follower :: Raft where
  "ex_follower = ex_leader\<lparr>State := StateFollower, Vote := 2, Lead := 2\<rparr>"

text \<open>A fresh store, and the configuration of a group whose only peer is node 1.\<close>

definition ex_storage :: Storage where
  "ex_storage =
     \<lparr>InitialState = Inr (\<lparr>HTerm = 0, HVote = 0, HCommit = 0\<rparr>, \<lparr>Nodes = []\<rparr>),
      st_entries = [], st_snap_index = 0, st_snap_term = 0,
      st_snapshot = Inl ErrSnapshotTemporarilyUnavailable\<rparr>"

definition ex_config :: Config where
  "ex_config =
     \<lparr>ID = 1, peers = [1], ElectionTick = 10, HeartbeatTick = 1,
      CStorage = Some ex_storage, Applied = 0\<rparr>"

text \<open>
  The node that \<open>newRaft\<close> builds from that configuration when the first
  draw of \<open>globalRand\<close> is \<open>ex_rand 0\<close>.
\<close>

definition ex_fresh_node :: Raft where
  "ex_fresh_node =
     \<lparr>raft_id = 1, Term = 0, Vote = 0,
      RaftLog = \<lparr>entries = [], snap_index = 0, snap_term = 0, committed = 0, applied = 0,
                  pending_snapshot = None,
                  storage_snapshot = Inl ErrSnapshotTemporarilyUnavailable\<rparr>,
      Prs = [(1, \<lparr>Match = 0, Next = 1\<rparr>)],
      State = StateFollower, votes = [], msgs = [], Lead = 0,
      heartbeatTimeout = 1, electionTimeout = 10, randomizedElectionTimeout = 13,
      leadTransferee = 0, PendingConfIndex = 0, electionElapsed = 0, heartbeatElapsed = 0,
      globalRand = ex_rand, globalRandCalls = 1\<rparr>"

text \<open>A snapshot at the given index and term for the peers 1, 2 and 3.\<close>

definition ex_snapshot :: "u64 \<Rightarrow> u64 \<Rightarrow> Snapshot" where
  "ex_snapshot i t =
     \<lparr>SData = [], Metadata = Some \<lparr>ConfState = Some \<lparr>Nodes = [1, 2, 3]\<rparr>, SIndex = i, STerm = t\<rparr>\<rparr>"

text \<open>The snapshot message that peer 2 sends to node 1 in term 3.\<close>

definition ex_snapshot_msg :: "u64 \<Rightarrow> u64 \<Rightarrow> Message" where
  "ex_snapshot_msg i t =
     emptyMessage\<lparr>MsgType := MsgSnapshot, To := 1, From := 2, MTerm := 3,
       MSnapshot := Some (ex_snapshot i t)\<rparr>"

text \<open>Messages that peer 2 sends to node 1 in term 3, and a local proposal.\<close>

definition ex_append :: "u64 \<Rightarrow> u64 \<Rightarrow> Entry list \<Rightarrow> u64 \<Rightarrow> Message" where
  "ex_append i t ents c =
     emptyMessage\<lparr>MsgType := MsgAppend, To := 1, From := 2, MTerm := 3,
       MIndex := i, LogTerm := t, Entries := ents, Commit := c\<rparr>"


definition ex_proposal :: Message where
  "ex_proposal =
     emptyMessage\<lparr>MsgType := MsgPropose, To := 1, From := 1,
       Entries := [\<lparr>EntryType = EntryNormal, ETerm = 0, EIndex = 0, Data = [1]\<rparr>]\<rparr>"

section \<open>Auxiliary facts\<close>

lemma u64_less_succ: "n \<noteq> - 1 \<Longrightarrow> (n::u64) < n + 1"
  using inc_less_eq_self_iff_eq [of n] by (simp add: not_le [symmetric])

lemma u64_le_less_succ: "(m::u64) \<le> n \<Longrightarrow> n \<noteq> - 1 \<Longrightarrow> m < n + 1"
  using u64_less_succ [of n] by simp

lemma maybeUpdate_twice: "maybeUpdate (snd (maybeUpdate pr n)) n = (False, snd (maybeUpdate pr n))"
  by (auto simp: maybeUpdate_def Let_def)

lemma send_AppendResponse:
  "send r (emptyMessage\<lparr>To := t, MsgType := MsgAppendResponse, MIndex := i\<rparr>) =
   Inr (r\<lparr>msgs := msgs r @
          [emptyMessage\<lparr>To := t, From := raft_id r, MTerm := Term r,
             MsgType := MsgAppendResponse, MIndex := i\<rparr>]\<rparr>)"
  by (simp add: send_def emptyMessage_def Let_def)

lemma send_AppendReject:
  "send r (emptyMessage\<lparr>To := t, MsgType := MsgAppendResponse, MIndex := i,
             Reject := True, RejectHint := h\<rparr>) =
   Inr (r\<lparr>msgs := msgs r @
          [emptyMessage\<lparr>To := t, From := raft_id r, MTerm := Term r,
             MsgType := MsgAppendResponse, MIndex := i, Reject := True, RejectHint := h\<rparr>]\<rparr>)"
  by (simp add: send_def emptyMessage_def Let_def)

lemma numOfPendingConf_nonneg: "0 \<le> numOfPendingConf ents"
  by (induction ents) auto

lemma numOfPendingConf_pos:
  "\<exists>e\<in>set ents. EntryType e = EntryConfChange \<Longrightarrow> 0 < numOfPendingConf ents"
proof (induction ents)
  case Nil
  then show ?case by simp
next
  case (Cons e ents)
  show ?case
  proof (cases "EntryType e = EntryConfChange")
    case True
    then show ?thesis using numOfPendingConf_nonneg [of ents] by simp
  next
    case False
    then show ?thesis using Cons by auto
  qed
qed

lemma reset_returns:
  assumes "0 < electionTimeout r"
  shows "\<exists>r'. reset r t = Inr r' \<and> Term r' = t \<and> (Term r \<noteq> t \<longrightarrow> Vote r' = None_id)
           \<and> (Term r = t \<longrightarrow> Vote r' = Vote r) \<and> State r' = State r"
  using assms
  by (auto simp: reset_def Let_def andThen_def resetRandomizedElectionTimeout_def
      abortLeaderTransfer_def)

lemma becomeFollower_returns:
  assumes "0 < electionTimeout r"
  shows "\<exists>r'. becomeFollower r t lead = Inr r' \<and> Term r' = t
           \<and> (Term r \<noteq> t \<longrightarrow> Vote r' = None_id) \<and> (Term r = t \<longrightarrow> Vote r' = Vote r)
           \<and> State r' = StateFollower \<and> Lead r' = lead"
  using reset_returns [OF assms, of t]
  by (auto simp: becomeFollower_def andThen_def)

text \<open>
  The placeholders of the source: a campaign, and a positive
  MsgAppendResponse that advances \<open>Match\<close> on a leader, end in a panic.
\<close>

lemma campaign_reaches_placeholder:
  "campaign r = Inl (Panic ''Raft: Leader_Election_Step3:::Your code here.'')"
  by (simp add: campaign_def becomeCandidate_def andThen_def)


text \<open>
  \<open>maybeUpdate\<close> alone: it returns true, with \<open>Match = n\<close> and
  \<open>Next = max(Next, n + 1)\<close> afterwards, exactly when \<open>n\<close> is above
  \<open>Match\<close>. On a leader, a positive MsgAppendResponse that does not advance
  \<open>Match\<close> stores what \<open>maybeUpdate\<close> left and returns nil; when the
  progress already holds the index, nothing changes.
\<close>

lemma maybeUpdate_iff_advanced:
  "((fst (maybeUpdate pr n) \<and> Match (snd (maybeUpdate pr n)) = n
       \<and> Next (snd (maybeUpdate pr n)) = max (Next pr) (n + 1)) \<longleftrightarrow> Match pr < n)
   \<and> maybeUpdate (snd (maybeUpdate pr n)) n = (False, snd (maybeUpdate pr n))
   \<and> (State r = StateLeader \<and> MsgType m = MsgAppendResponse \<and> \<not> Reject m
        \<and> (MTerm m = 0 \<or> MTerm m = Term r)
        \<and> map_of (Prs r) (From m) = Some (snd (maybeUpdate pr (MIndex m)))
      \<longrightarrow> Step r m = Inr (None, r))"
proof -
  have a: "(fst (maybeUpdate pr n) \<and> Match (snd (maybeUpdate pr n)) = n
       \<and> Next (snd (maybeUpdate pr n)) = max (Next pr) (n + 1)) \<longleftrightarrow> Match pr < n"
    by (auto simp: maybeUpdate_def Let_def max_def)
  have c: "Step r m = Inr (None, r)"
    if h: "State r = StateLeader" "MsgType m = MsgAppendResponse" "\<not> Reject m"
      "MTerm m = 0 \<or> MTerm m = Term r"
      "map_of (Prs r) (From m) = Some (snd (maybeUpdate pr (MIndex m)))"
  proof -
    let ?p = "snd (maybeUpdate pr (MIndex m))"
    have st: "storeProgress r (From m) ?p = r"
      using h(5) by (simp add: storeProgress_def update_triv)
    have "stepLeader r m = Inr (None, r)"
      using h(2,3,5) maybeUpdate_twice [of pr "MIndex m"] st
      by (simp add: stepLeader_def getProgress_def Let_def)
    then have "Step_dispatch r m = Inr (None, r)"
      using h(1,2) by (simp add: Step_dispatch_def)
    then show ?thesis using h(4) by (auto simp: Step_def)
  qed
  from a maybeUpdate_twice [of pr n] c show ?thesis by blast
qed

lemma retained_response_stores_progress:
  assumes "State r = StateLeader" and "MsgType m = MsgAppendResponse" and "\<not> Reject m"
    and "MTerm m = 0 \<or> MTerm m = Term r"
    and "map_of (Prs r) (From m) = Some pr" and "\<not> Match pr < MIndex m"
  shows "Step r m = Inr (None, storeProgress r (From m) (snd (maybeUpdate pr (MIndex m))))"
proof -
  have "stepLeader r m = Inr (None, storeProgress r (From m) (snd (maybeUpdate pr (MIndex m))))"
    using assms(2,3,5,6)
    by (simp add: stepLeader_def getProgress_def Let_def maybeUpdate_def)
  then have "Step_dispatch r m
      = Inr (None, storeProgress r (From m) (snd (maybeUpdate pr (MIndex m))))"
    using assms(1,2) by (simp add: Step_dispatch_def)
  then show ?thesis using assms(4) by (auto simp: Step_def)
qed

text \<open>The scenario log, evaluated.\<close>

lemma ex_log_Term_2: "RaftLog_Term ex_log 2 = Inr 2"
  by (simp add: RaftLog_Term_def ex_log_def RaftLog_LastIndex_def)

lemma ex_log_Term_3: "RaftLog_Term ex_log 3 = Inr 3"
  by (simp add: RaftLog_Term_def ex_log_def RaftLog_LastIndex_def)

lemma ex_log_Term_5: "RaftLog_Term ex_log 5 = Inl ErrUnavailable"
  by (simp add: RaftLog_Term_def ex_log_def RaftLog_LastIndex_def)

lemma ex_log_LastIndex: "RaftLog_LastIndex ex_log = 3"
  by (simp add: ex_log_def RaftLog_LastIndex_def)

lemma ex_maybeAppend_conflict:
  "RaftLog_maybeAppend ex_log 2 2 3 [\<lparr>EntryType = EntryNormal, ETerm = 4, EIndex = 3, Data = []\<rparr>]
   = Inr (Some 3,
       ex_log\<lparr>entries :=
          [\<lparr>EntryType = EntryNormal, ETerm = 2, EIndex = 1, Data = []\<rparr>,
           \<lparr>EntryType = EntryConfChange, ETerm = 2, EIndex = 2, Data = []\<rparr>,
           \<lparr>EntryType = EntryNormal, ETerm = 4, EIndex = 3, Data = []\<rparr>],
         committed := 3\<rparr>)"
  by (simp add: RaftLog_maybeAppend_def RaftLog_matchTerm_def ex_log_Term_2 ex_log_Term_3
      andThen_def RaftLog_commitTo_def RaftLog_firstIndex_def RaftLog_LastIndex_def)
    (simp add: ex_log_def)

lemma ex_maybeAppend_gap: "RaftLog_maybeAppend ex_log 5 3 3 [] = Inr (None, ex_log)"
  by (simp add: RaftLog_maybeAppend_def RaftLog_matchTerm_def ex_log_Term_5)


text \<open>The commit index of the source against the specification's wording.\<close>

lemma quorum_le_length: "0 < n \<Longrightarrow> n div 2 + 1 \<le> (n::nat)"
  by arith

lemma nth_sort_spec_mci:
  assumes "ms \<noteq> []"
  shows "sort ms ! (length ms - (length ms div 2 + 1)) = spec_mci ms"
proof -
  have n: "0 < length ms" using assms by simp
  have "length ms div 2 < length (sort ms)" using n by simp
  then have "rev (sort ms) ! (length ms div 2)
      = sort ms ! (length (sort ms) - Suc (length ms div 2))"
    by (rule rev_nth)
  then show ?thesis by (simp add: spec_mci_def spec_quorum_def)
qed

lemma maybeCommit_spec_commit_index:
  assumes "Prs r \<noteq> []"
  shows "maybeCommit r =
     Inr (fst (RaftLog_maybeCommit (RaftLog r) (spec_commit_index r) (Term r)),
          r\<lparr>RaftLog := snd (RaftLog_maybeCommit (RaftLog r) (spec_commit_index r) (Term r))\<rparr>)"
proof -
  let ?ms = "map (\<lambda>(i, p). Match p) (Prs r)"
  let ?n = "length (Prs r)"
  have ne: "?ms \<noteq> []" using assms by simp
  have n: "0 < ?n" using assms by simp
  have k: "int ?n - (int ?n div 2 + 1) = int (?n - (?n div 2 + 1))"
    using quorum_le_length [OF n] by (simp add: zdiv_int)
  have k0: "\<not> int ?n - (int ?n div 2 + 1) < 0"
    unfolding k by simp
  have k1: "\<not> int ?n \<le> int ?n - (int ?n div 2 + 1)"
    by simp
  have nth: "sort ?ms ! nat (int ?n - (int ?n div 2 + 1)) = spec_commit_index r"
    unfolding k spec_commit_index_def using nth_sort_spec_mci [OF ne] by simp
  show ?thesis
    unfolding maybeCommit_def quorum_def Let_def
    using k0 k1 nth by (simp add: split_beta)
qed

lemma spec_mci_on_quorum:
  assumes "ms \<noteq> []"
  shows "spec_quorum (length ms) \<le> length (filter (\<lambda>x. spec_mci ms \<le> x) ms)"
proof -
  let ?xs = "sort ms"
  let ?k = "length ms - (length ms div 2 + 1)"
  let ?P = "\<lambda>x. spec_mci ms \<le> x"
  have n: "0 < length ms" using assms by simp
  have mci: "?xs ! ?k = spec_mci ms" by (rule nth_sort_spec_mci [OF assms])
  have all: "\<forall>x \<in> set (drop ?k ?xs). ?xs ! ?k \<le> x"
  proof
    fix x assume "x \<in> set (drop ?k ?xs)"
    then obtain j where j: "x = ?xs ! j" "?k \<le> j" "j < length ?xs"
      by (auto simp: in_set_conv_nth)
    then show "?xs ! ?k \<le> x" by (simp add: sorted_nth_mono)
  qed
  have "length (filter ?P ms) = length (filter ?P ?xs)"
    by (simp add: filter_sort)
  also have "\<dots> = length (filter ?P (take ?k ?xs @ drop ?k ?xs))"
    by simp
  also have "\<dots> \<ge> length (filter ?P (drop ?k ?xs))"
    unfolding filter_append by simp
  finally have "length (filter ?P (drop ?k ?xs)) \<le> length (filter ?P ms)" .
  moreover have "filter ?P (drop ?k ?xs) = drop ?k ?xs"
    using all mci by (simp add: filter_id_conv)
  moreover have "length (drop ?k ?xs) = spec_quorum (length ms)"
    using quorum_le_length [OF n] by (simp add: spec_quorum_def)
  ultimately show ?thesis by simp
qed

lemma length_filter_Match:
  "length (filter (\<lambda>(i, p). c \<le> Match p) ps)
     = length (filter (\<lambda>x. c \<le> x) (map (\<lambda>(i, p). Match p) ps))"
  by (induction ps) auto

lemma ex_leader_commit_index: "spec_commit_index ex_leader = 2"
  by (simp add: spec_commit_index_def spec_mci_def spec_quorum_def ex_leader_def)


text \<open>The progress records after \<open>reset\<close>, and the two operations on one record.\<close>

lemma u64_succ_pos: "n \<noteq> - 1 \<Longrightarrow> (0::u64) < n + 1"
  using max_word_wrap [of n] by (auto simp: word_greater_zero_iff)

lemma reset_Prs:
  assumes "reset r t = Inr r'"
  shows "RaftLog r' = RaftLog r \<and>
     Prs r' = map (\<lambda>(i, pr). (i, \<lparr>Match = (if i = raft_id r then RaftLog_LastIndex (RaftLog r) else 0),
                                   Next = RaftLog_LastIndex (RaftLog r) + 1\<rparr>)) (Prs r)"
  using assms
  by (auto simp: reset_def Let_def andThen_def resetRandomizedElectionTimeout_def
      abortLeaderTransfer_def split: if_splits)

lemma reset_match_below_next:
  assumes "reset r t = Inr r'" and "RaftLog_LastIndex (RaftLog r') \<noteq> - 1"
  shows "list_all (\<lambda>(i, p). Match p < Next p) (Prs r')"
  using reset_Prs [OF assms(1)] assms(2)
  by (auto simp: list_all_iff u64_less_succ u64_succ_pos)

lemma becomeFollower_match_below_next:
  assumes "becomeFollower r t lead = Inr r'" and "RaftLog_LastIndex (RaftLog r') \<noteq> - 1"
  shows "list_all (\<lambda>(i, p). Match p < Next p) (Prs r')"
proof -
  from assms(1) obtain r0 where r0: "reset r t = Inr r0" "r' = r0\<lparr>Lead := lead, State := StateFollower\<rparr>"
    by (auto simp: becomeFollower_def andThen_def split: sum.splits)
  then show ?thesis using reset_match_below_next [of r t r0] assms(2) by simp
qed

lemma newRaft_match_below_next:
  assumes "newRaft c rnd calls = Inr r'" and "RaftLog_LastIndex (RaftLog r') \<noteq> - 1"
  shows "list_all (\<lambda>(i, p). Match p < Next p) (Prs r')"
proof -
  from assms(1) obtain r2 t where "becomeFollower r2 t None_id = Inr r'"
    by (auto simp: newRaft_def Let_def andThen_def split: option.splits sum.splits if_splits prod.splits)
  then show ?thesis using assms(2) by (rule becomeFollower_match_below_next)
qed

lemma maybeUpdate_match_below_next:
  assumes "Match pr < Next pr"
  shows "(Match (snd (maybeUpdate pr n)) < Next (snd (maybeUpdate pr n))) = (n \<noteq> - 1)"
proof -
  have "Match pr < - 1"
    using assms max_word_max [of "Next pr"] by (rule less_le_trans)
  then show ?thesis
    using assms u64_less_succ [of n] by (auto simp: maybeUpdate_def Let_def)
qed

lemma maybeDecrTo_match_below_next:
  "Match pr < rejected \<Longrightarrow>
   (Match (snd (maybeDecrTo pr rejected lastidx)) < Next (snd (maybeDecrTo pr rejected lastidx)))
     = (Match pr < lastidx + 1 \<or> Match pr = 0)"
  by (auto simp: maybeDecrTo_def Let_def min_def word_greater_zero_iff word_less_1)

lemma ex_newRaft: "newRaft ex_config ex_rand 0 = Inr ex_fresh_node"
  by (simp add: newRaft_def validate_def ex_config_def ex_storage_def None_id_def IsEmptyHardState_def
      Let_def andThen_def becomeFollower_def reset_def resetRandomizedElectionTimeout_def
      abortLeaderTransfer_def newLog_def RaftLog_LastIndex_def ex_rand_def ex_fresh_node_def)



text \<open>The progress map that \<open>restoreNode\<close> builds.\<close>

lemma restoreNode_fold_gen:
  "raft_id r = i \<Longrightarrow> RaftLog_LastIndex (RaftLog r) = li \<Longrightarrow>
   restoreNode r nodes =
     r\<lparr>Prs := fold (\<lambda>n. AList.update n \<lparr>Match = (if n = i then li else 0), Next = li + 1\<rparr>)
                nodes (Prs r)\<rparr>"
  by (induction nodes arbitrary: r) (simp_all add: setProgress_def Let_def)

lemma restoreNode_fold:
  "restoreNode r nodes =
     r\<lparr>Prs := fold (\<lambda>n. AList.update n
                   \<lparr>Match = (if n = raft_id r then RaftLog_LastIndex (RaftLog r) else 0),
                    Next = RaftLog_LastIndex (RaftLog r) + 1\<rparr>) nodes (Prs r)\<rparr>"
  by (rule restoreNode_fold_gen) simp_all

lemma map_of_fold_update:
  "map_of (fold (\<lambda>n. AList.update n (f n)) nodes ps) k =
     (if k \<in> set nodes then Some (f k) else map_of ps k)"
  by (induction nodes arbitrary: ps) (auto simp: update_conv')


section \<open>The claims\<close>

text \<open>
  C1. On a node with a non-empty progress map, \<open>quorum\<close> is
  \<open>Q = N div 2 + 1\<close> for the \<open>N\<close> peers of the map, and \<open>maybeCommit\<close>
  hands to the log's \<open>maybeCommit\<close> the \<open>Q\<close>-th highest \<open>Match\<close>
  value of the map together with the node's term; at least \<open>Q\<close> peers have
  a \<open>Match\<close> at or above that value. Consequently an index that a quorum
  has, but whose term in the log is not the node's term, is not committed
  (nothing changes), and whenever \<open>maybeCommit\<close> moves the commit index, it
  moves it to that value and the entry there has the node's term.
\<close>

theorem maybeCommit_quorum_and_term:
  assumes "Prs r \<noteq> []"
  shows "quorum r = int (spec_quorum (length (Prs r)))
    \<and> maybeCommit r =
        Inr (fst (RaftLog_maybeCommit (RaftLog r) (spec_commit_index r) (Term r)),
             r\<lparr>RaftLog := snd (RaftLog_maybeCommit (RaftLog r) (spec_commit_index r) (Term r))\<rparr>)
    \<and> spec_quorum (length (Prs r))
        \<le> length (filter (\<lambda>(i, p). spec_commit_index r \<le> Match p) (Prs r))
    \<and> (RaftLog_Term (RaftLog r) (spec_commit_index r) \<noteq> Inr (Term r)
         \<longrightarrow> maybeCommit r = Inr (False, r))
    \<and> (\<forall>moved r'. maybeCommit r = Inr (moved, r')
           \<and> committed (RaftLog r') \<noteq> committed (RaftLog r)
         \<longrightarrow> committed (RaftLog r') = spec_commit_index r
             \<and> RaftLog_Term (RaftLog r) (committed (RaftLog r')) = Inr (Term r))"
proof -
  let ?ms = "map (\<lambda>(i, p). Match p) (Prs r)"
  have ne: "?ms \<noteq> []" using assms by simp
  have q: "quorum r = int (spec_quorum (length (Prs r)))"
    by (simp add: quorum_def spec_quorum_def zdiv_int)
  note eq = maybeCommit_spec_commit_index [OF assms]
  have cnt: "spec_quorum (length (Prs r))
        \<le> length (filter (\<lambda>(i, p). spec_commit_index r \<le> Match p) (Prs r))"
    using spec_mci_on_quorum [OF ne]
    by (simp only: length_filter_Match spec_commit_index_def length_map)
  have gated: "maybeCommit r = Inr (False, r)"
    if "RaftLog_Term (RaftLog r) (spec_commit_index r) \<noteq> Inr (Term r)"
    using that unfolding eq by (simp add: RaftLog_maybeCommit_def)
  have moved: "committed (RaftLog r') = spec_commit_index r
             \<and> RaftLog_Term (RaftLog r) (committed (RaftLog r')) = Inr (Term r)"
    if "maybeCommit r = Inr (moved, r')" "committed (RaftLog r') \<noteq> committed (RaftLog r)"
    for moved r'
    using that unfolding eq by (auto simp: RaftLog_maybeCommit_def split: if_splits)
  from q eq cnt gated moved show ?thesis by blast
qed


theorem maybeCommit_quorum_and_term_example:
  "spec_commit_index ex_leader = 2 \<and> maybeCommit ex_leader = Inr (False, ex_leader)
   \<and> maybeCommit (ex_leader\<lparr>Prs := [(1, \<lparr>Match = 3, Next = 4\<rparr>), (2, \<lparr>Match = 3, Next = 4\<rparr>),
                                     (3, \<lparr>Match = 2, Next = 3\<rparr>)]\<rparr>)
       = Inr (True, ex_leader\<lparr>Prs := [(1, \<lparr>Match = 3, Next = 4\<rparr>), (2, \<lparr>Match = 3, Next = 4\<rparr>),
                                       (3, \<lparr>Match = 2, Next = 3\<rparr>)],
                              RaftLog := ex_log\<lparr>committed := 3\<rparr>\<rparr>)"
proof -
  let ?r = "ex_leader\<lparr>Prs := [(1, \<lparr>Match = 3, Next = 4\<rparr>), (2, \<lparr>Match = 3, Next = 4\<rparr>),
                                     (3, \<lparr>Match = 2, Next = 3\<rparr>)]\<rparr>"
  have p: "Prs ex_leader \<noteq> []" by (simp add: ex_leader_def)
  have t: "RaftLog_Term (RaftLog ex_leader) (spec_commit_index ex_leader) \<noteq> Inr (Term ex_leader)"
    by (simp add: ex_leader_commit_index) (simp add: ex_leader_def ex_log_Term_2)
  have p2: "Prs ?r \<noteq> []" by simp
  have c2: "spec_commit_index ?r = 3"
    by (simp add: spec_commit_index_def spec_mci_def spec_quorum_def)
  have m2: "RaftLog_maybeCommit (RaftLog ex_leader) 3 (Term ex_leader)
      = (True, ex_log\<lparr>committed := 3\<rparr>)"
    by (simp add: RaftLog_maybeCommit_def ex_leader_def ex_log_Term_3) (simp add: ex_log_def)
  note eq2 = maybeCommit_quorum_and_term [OF p2, THEN conjunct2, THEN conjunct1]
  have moved: "maybeCommit ?r = Inr (True, ?r\<lparr>RaftLog := ex_log\<lparr>committed := 3\<rparr>\<rparr>)"
    unfolding eq2 c2 by (simp add: m2)
  note gated = maybeCommit_quorum_and_term [OF p, THEN conjunct2, THEN conjunct2, THEN conjunct2,
      THEN conjunct1, rule_format, OF t]
  from gated moved ex_leader_commit_index show ?thesis by simp
qed

text \<open>
  C2 (as amended). \<open>Match < Next\<close> holds for every record of the progress
  map after \<open>reset\<close> and after \<open>newRaft\<close>, when the last index of the
  log is below \<open>2^64 - 1\<close>. On a record with \<open>Match < Next\<close>,
  \<open>maybeUpdate(n)\<close> keeps the inequality exactly when \<open>n\<close> is not
  \<open>2^64 - 1\<close>. \<open>maybeDecrTo(rejected, last)\<close> changes nothing when the
  rejection is stale (\<open>rejected \<le> Match\<close>); when it is accepted, the
  inequality holds afterwards exactly when \<open>Match < last + 1\<close> (in 64 bits)
  or \<open>Match = 0\<close>. The counterexample is an accepted rejection whose hint is
  below \<open>Match\<close>: it leaves \<open>Next\<close> below \<open>Match\<close>.
\<close>

theorem progress_match_below_next:
  "(Match pr < Next pr \<longrightarrow>
      (Match (snd (maybeUpdate pr n)) < Next (snd (maybeUpdate pr n))) = (n \<noteq> - 1))
   \<and> (rejected \<le> Match pr \<longrightarrow> maybeDecrTo pr rejected lastidx = (False, pr))
   \<and> (Match pr < rejected \<longrightarrow>
        fst (maybeDecrTo pr rejected lastidx)
        \<and> (Match (snd (maybeDecrTo pr rejected lastidx))
              < Next (snd (maybeDecrTo pr rejected lastidx)))
            = (Match pr < lastidx + 1 \<or> Match pr = 0))
   \<and> (reset r t = Inr r1 \<and> RaftLog_LastIndex (RaftLog r1) \<noteq> - 1 \<longrightarrow>
        list_all (\<lambda>(i, p). Match p < Next p) (Prs r1))
   \<and> (newRaft c rnd calls = Inr r2 \<and> RaftLog_LastIndex (RaftLog r2) \<noteq> - 1 \<longrightarrow>
        list_all (\<lambda>(i, p). Match p < Next p) (Prs r2))"
proof -
  have stale: "maybeDecrTo pr rejected lastidx = (False, pr)" if "rejected \<le> Match pr"
    using that by (simp add: maybeDecrTo_def)
  have accepted: "fst (maybeDecrTo pr rejected lastidx)" if "Match pr < rejected"
    using that by (simp add: maybeDecrTo_def Let_def)
  from maybeUpdate_match_below_next [of pr n] stale accepted
    maybeDecrTo_match_below_next [of pr rejected lastidx]
    reset_match_below_next [of r t r1] newRaft_match_below_next [of c rnd calls r2]
  show ?thesis by blast
qed

theorem progress_match_below_next_example:
  "Match (snd (maybeUpdate \<lparr>Match = 2, Next = 3\<rparr> 5)) < Next (snd (maybeUpdate \<lparr>Match = 2, Next = 3\<rparr> 5))
   \<and> maybeDecrTo \<lparr>Match = 2, Next = 6\<rparr> 2 1 = (False, \<lparr>Match = 2, Next = 6\<rparr>)
   \<and> Match (snd (maybeDecrTo \<lparr>Match = 2, Next = 6\<rparr> 5 3))
        < Next (snd (maybeDecrTo \<lparr>Match = 2, Next = 6\<rparr> 5 3))
   \<and> (\<exists>r1. reset ex_leader 3 = Inr r1 \<and> list_all (\<lambda>(i, p). Match p < Next p) (Prs r1))
   \<and> list_all (\<lambda>(i, p). Match p < Next p) (Prs ex_fresh_node)"
proof -
  obtain r1 where r1: "reset ex_leader 3 = Inr r1"
    using reset_returns [of ex_leader 3] by (auto simp: ex_leader_def)
  have l1: "RaftLog_LastIndex (RaftLog r1) \<noteq> - 1"
    using reset_Prs [OF r1] by (simp add: ex_leader_def ex_log_LastIndex)
  have l2: "RaftLog_LastIndex (RaftLog ex_fresh_node) \<noteq> - 1"
    by (simp add: ex_fresh_node_def RaftLog_LastIndex_def)
  from progress_match_below_next
    [of "\<lparr>Match = 2, Next = 3\<rparr>" 5 2 1 ex_leader 3 r1 ex_config ex_rand 0 ex_fresh_node]
  have a: "Match (snd (maybeUpdate \<lparr>Match = 2, Next = 3\<rparr> 5)) < Next (snd (maybeUpdate \<lparr>Match = 2, Next = 3\<rparr> 5))"
    and d: "list_all (\<lambda>(i, p). Match p < Next p) (Prs r1)"
    and e: "list_all (\<lambda>(i, p). Match p < Next p) (Prs ex_fresh_node)"
    using r1 l1 l2 ex_newRaft by simp_all
  from progress_match_below_next [of "\<lparr>Match = 2, Next = 6\<rparr>" _ 2 1]
  have b: "maybeDecrTo \<lparr>Match = 2, Next = 6\<rparr> 2 1 = (False, \<lparr>Match = 2, Next = 6\<rparr>)"
    by simp
  from progress_match_below_next [of "\<lparr>Match = 2, Next = 6\<rparr>" _ 5 3]
  have c: "Match (snd (maybeDecrTo \<lparr>Match = 2, Next = 6\<rparr> 5 3))
        < Next (snd (maybeDecrTo \<lparr>Match = 2, Next = 6\<rparr> 5 3))"
    by simp
  from a b c d e r1 show ?thesis by blast
qed

theorem maybeDecrTo_low_hint_counterexample:
  "Match \<lparr>Match = 5, Next = 6\<rparr> < Next \<lparr>Match = 5, Next = 6\<rparr>
   \<and> maybeDecrTo \<lparr>Match = 5, Next = 6\<rparr> 6 2 = (True, \<lparr>Match = 5, Next = 3\<rparr>)
   \<and> \<not> Match \<lparr>Match = 5, Next = 3\<rparr> < Next \<lparr>Match = 5, Next = 3\<rparr>"
  by (simp add: maybeDecrTo_def Let_def)

text \<open>
  C3. A message whose term is not 0 and is below the node's term is dropped:
  \<open>Step\<close> returns nil and the structure it leaves is the one it found, so
  the mailbox, term, vote, role, leader, log, progress map and timers are
  unchanged; stepping the message any number of times returns the same
  structure.
\<close>

theorem Step_lower_term_dropped:
  assumes "0 < MTerm m" and "MTerm m < Term r"
  shows "Step r m = Inr (None, r) \<and> Step_times n r m = Inr r"
proof -
  have one: "Step r m = Inr (None, r)"
    using assms by (auto simp: Step_def)
  have "Step_times n r m = Inr r"
    by (induction n) (simp_all add: one andThen_def)
  with one show ?thesis by simp
qed

theorem Step_lower_term_dropped_example:
  "Step ex_leader (emptyMessage\<lparr>MsgType := MsgAppend, From := 2, MTerm := 2\<rparr>)
     = Inr (None, ex_leader)
   \<and> Step_times 4 ex_leader (emptyMessage\<lparr>MsgType := MsgAppend, From := 2, MTerm := 2\<rparr>)
     = Inr ex_leader"
  using Step_lower_term_dropped
    [of "emptyMessage\<lparr>MsgType := MsgAppend, From := 2, MTerm := 2\<rparr>" ex_leader 4]
  by (simp add: ex_leader_def)

text \<open>
  C4. A message whose term is above the node's makes \<open>Step\<close> call
  \<open>becomeFollower\<close> first, on a node built by \<open>newRaft\<close> (whose election
  timeout is positive): the call returns a follower at the term of the
  message, with the vote cleared, and with the sender as leader exactly for
  the types MsgAppend, MsgHeartbeat and MsgSnapshot (no leader for any other
  type). Only then is the message handed to the second switch of \<open>Step\<close>.
\<close>

theorem Step_higher_term_becomes_follower:
  assumes "Term r < MTerm m" and "0 < electionTimeout r"
  shows "\<exists>r'. becomeFollower r (MTerm m)
                (if MsgType m = MsgAppend \<or> MsgType m = MsgHeartbeat \<or> MsgType m = MsgSnapshot
                 then From m else None_id) = Inr r'
           \<and> Step r m = Step_dispatch r' m
           \<and> State r' = StateFollower \<and> Term r' = MTerm m \<and> Vote r' = None_id
           \<and> Lead r' = (if MsgType m = MsgAppend \<or> MsgType m = MsgHeartbeat
                            \<or> MsgType m = MsgSnapshot
                         then From m else None_id)"
proof -
  let ?lead = "if MsgType m = MsgAppend \<or> MsgType m = MsgHeartbeat \<or> MsgType m = MsgSnapshot
               then From m else None_id"
  from assms(1) have nz: "MTerm m \<noteq> 0" by auto
  from assms(1) have ne: "Term r \<noteq> MTerm m" by auto
  obtain r' where r': "becomeFollower r (MTerm m) ?lead = Inr r'" "Term r' = MTerm m"
      "Term r \<noteq> MTerm m \<longrightarrow> Vote r' = None_id" "State r' = StateFollower" "Lead r' = ?lead"
    using becomeFollower_returns [OF assms(2), of "MTerm m" ?lead] by blast
  have "Step r m = Step_dispatch r' m"
    using r'(1) nz assms(1) by (auto simp: Step_def andThen_def)
  with r' ne show ?thesis by blast
qed

theorem Step_higher_term_becomes_follower_example:
  "\<exists>r'. becomeFollower ex_leader 5 2 = Inr r'
      \<and> Step ex_leader (emptyMessage\<lparr>MsgType := MsgHeartbeat, From := 2, MTerm := 5\<rparr>)
        = Step_dispatch r' (emptyMessage\<lparr>MsgType := MsgHeartbeat, From := 2, MTerm := 5\<rparr>)
      \<and> State r' = StateFollower \<and> Term r' = 5 \<and> Vote r' = None_id \<and> Lead r' = 2"
  using Step_higher_term_becomes_follower
    [of ex_leader "emptyMessage\<lparr>MsgType := MsgHeartbeat, From := 2, MTerm := 5\<rparr>"]
  by (simp add: ex_leader_def)

text \<open>
  C5. \<open>handleAppendEntries\<close> answers with one MsgAppendResponse to the
  sender, stamped with the node's id and term. If the index of the message is
  below \<open>committed\<close>, the response carries \<open>committed\<close> and nothing else
  changes. Otherwise the log's \<open>maybeAppend\<close> is called on the index, log
  term, commit and entries of the message: when it succeeds with a last new
  index, the response carries that index; when it fails, the response carries
  the index of the message, the reject flag, and as hint the last index of the
  log.
\<close>

theorem handleAppendEntries_replies:
  "(MIndex m < committed (RaftLog r) \<longrightarrow>
      handleAppendEntries r m =
        Inr (r\<lparr>msgs := msgs r @
               [emptyMessage\<lparr>To := From m, From := raft_id r, MTerm := Term r,
                  MsgType := MsgAppendResponse, MIndex := committed (RaftLog r)\<rparr>]\<rparr>))
   \<and> (\<not> MIndex m < committed (RaftLog r) \<and>
        RaftLog_maybeAppend (RaftLog r) (MIndex m) (LogTerm m) (Commit m) (Entries m)
          = Inr (Some i, l) \<longrightarrow>
      handleAppendEntries r m =
        Inr (r\<lparr>RaftLog := l, msgs := msgs r @
               [emptyMessage\<lparr>To := From m, From := raft_id r, MTerm := Term r,
                  MsgType := MsgAppendResponse, MIndex := i\<rparr>]\<rparr>))
   \<and> (\<not> MIndex m < committed (RaftLog r) \<and>
        RaftLog_maybeAppend (RaftLog r) (MIndex m) (LogTerm m) (Commit m) (Entries m)
          = Inr (None, l) \<longrightarrow>
      handleAppendEntries r m =
        Inr (r\<lparr>RaftLog := l, msgs := msgs r @
               [emptyMessage\<lparr>To := From m, From := raft_id r, MTerm := Term r,
                  MsgType := MsgAppendResponse, MIndex := MIndex m, Reject := True,
                  RejectHint := RaftLog_LastIndex l\<rparr>]\<rparr>))"
  by (simp add: handleAppendEntries_def andThen_def send_AppendResponse send_AppendReject)

theorem handleAppendEntries_replies_example:
  "handleAppendEntries ex_follower (ex_append 0 0 [] 1) =
     Inr (ex_follower\<lparr>msgs :=
       [emptyMessage\<lparr>To := 2, From := 1, MTerm := 3, MsgType := MsgAppendResponse,
          MIndex := 1\<rparr>]\<rparr>)
   \<and> handleAppendEntries ex_follower
       (ex_append 2 2 [\<lparr>EntryType = EntryNormal, ETerm = 4, EIndex = 3, Data = []\<rparr>] 3) =
     Inr (ex_follower\<lparr>RaftLog :=
         ex_log\<lparr>entries :=
            [\<lparr>EntryType = EntryNormal, ETerm = 2, EIndex = 1, Data = []\<rparr>,
             \<lparr>EntryType = EntryConfChange, ETerm = 2, EIndex = 2, Data = []\<rparr>,
             \<lparr>EntryType = EntryNormal, ETerm = 4, EIndex = 3, Data = []\<rparr>],
           committed := 3\<rparr>,
       msgs :=
       [emptyMessage\<lparr>To := 2, From := 1, MTerm := 3, MsgType := MsgAppendResponse,
          MIndex := 3\<rparr>]\<rparr>)
   \<and> handleAppendEntries ex_follower (ex_append 5 3 [] 3) =
     Inr (ex_follower\<lparr>msgs :=
       [emptyMessage\<lparr>To := 2, From := 1, MTerm := 3, MsgType := MsgAppendResponse,
          MIndex := 5, Reject := True, RejectHint := 3\<rparr>]\<rparr>)"
  using handleAppendEntries_replies [of "ex_append 0 0 [] 1" ex_follower]
    handleAppendEntries_replies
      [of "ex_append 2 2 [\<lparr>EntryType = EntryNormal, ETerm = 4, EIndex = 3, Data = []\<rparr>] 3"
          ex_follower 3
          "ex_log\<lparr>entries :=
            [\<lparr>EntryType = EntryNormal, ETerm = 2, EIndex = 1, Data = []\<rparr>,
             \<lparr>EntryType = EntryConfChange, ETerm = 2, EIndex = 2, Data = []\<rparr>,
             \<lparr>EntryType = EntryNormal, ETerm = 4, EIndex = 3, Data = []\<rparr>],
           committed := 3\<rparr>"]
    handleAppendEntries_replies [of "ex_append 5 3 [] 3" ex_follower _ ex_log]
  by (simp add: ex_append_def emptyMessage_def ex_follower_def ex_leader_def
      ex_maybeAppend_conflict ex_maybeAppend_gap ex_log_LastIndex)
    (simp add: ex_log_def)

text \<open>
  C6. For a MsgSnapshot that carries a snapshot with metadata,
  \<open>handleSnapshot\<close> answers the sender with one MsgAppendResponse. If the
  index of the snapshot is at or below \<open>committed\<close>, the snapshot is
  dropped and the response carries \<open>committed\<close>. Else, if the log has the
  snapshot's term at the snapshot's index, only the commit index moves, to the
  index of the snapshot, which the response carries; the entries and the
  progress map stay. Else the log is restored from the snapshot (no entries,
  the snapshot pending, committed and last index at the snapshot's index), the
  progress map holds exactly the nodes of the snapshot's configuration state
  (\<open>Next\<close> one past the snapshot, \<open>Match\<close> at the snapshot for the node
  itself and 0 for the others), and the response carries the new last index.
\<close>

theorem handleSnapshot_cases:
  assumes "MSnapshot m = Some s" and "Metadata s = Some md"
  shows
   "(SIndex md \<le> committed (RaftLog r) \<longrightarrow>
       handleSnapshot r m =
         Inr (r\<lparr>msgs := msgs r @
                [emptyMessage\<lparr>To := From m, From := raft_id r, MTerm := Term r,
                   MsgType := MsgAppendResponse, MIndex := committed (RaftLog r)\<rparr>]\<rparr>))
    \<and> (committed (RaftLog r) < SIndex md
         \<and> RaftLog_matchTerm (RaftLog r) (SIndex md) (STerm md) \<longrightarrow>
       handleSnapshot r m =
         Inr (r\<lparr>RaftLog := (RaftLog r)\<lparr>committed := SIndex md\<rparr>,
                msgs := msgs r @
                [emptyMessage\<lparr>To := From m, From := raft_id r, MTerm := Term r,
                   MsgType := MsgAppendResponse, MIndex := SIndex md\<rparr>]\<rparr>))
    \<and> (committed (RaftLog r) < SIndex md
         \<and> \<not> RaftLog_matchTerm (RaftLog r) (SIndex md) (STerm md)
         \<and> ConfState md = Some cs \<longrightarrow>
       (\<exists>r'. handleSnapshot r m = Inr r'
          \<and> RaftLog r' = RaftLog_restore (RaftLog r) s md
          \<and> entries (RaftLog r') = [] \<and> committed (RaftLog r') = SIndex md
          \<and> pending_snapshot (RaftLog r') = Some s
          \<and> RaftLog_LastIndex (RaftLog r') = SIndex md
          \<and> (\<forall>n. map_of (Prs r') n =
                (if n \<in> set (Nodes cs)
                 then Some \<lparr>Match = (if n = raft_id r then SIndex md else 0),
                            Next = SIndex md + 1\<rparr>
                 else None))
          \<and> msgs r' = msgs r @
                [emptyMessage\<lparr>To := From m, From := raft_id r, MTerm := Term r,
                   MsgType := MsgAppendResponse, MIndex := SIndex md\<rparr>]))"
proof -
  have stale: "handleSnapshot r m =
         Inr (r\<lparr>msgs := msgs r @
                [emptyMessage\<lparr>To := From m, From := raft_id r, MTerm := Term r,
                   MsgType := MsgAppendResponse, MIndex := committed (RaftLog r)\<rparr>]\<rparr>)"
    if "SIndex md \<le> committed (RaftLog r)"
    using assms that
    by (simp add: handleSnapshot_def restore_def andThen_def send_AppendResponse)
  have fast: "handleSnapshot r m =
         Inr (r\<lparr>RaftLog := (RaftLog r)\<lparr>committed := SIndex md\<rparr>,
                msgs := msgs r @
                [emptyMessage\<lparr>To := From m, From := raft_id r, MTerm := Term r,
                   MsgType := MsgAppendResponse, MIndex := SIndex md\<rparr>]\<rparr>)"
    if "committed (RaftLog r) < SIndex md" "RaftLog_matchTerm (RaftLog r) (SIndex md) (STerm md)"
    using assms that
    by (simp add: handleSnapshot_def restore_def andThen_def send_AppendResponse
        RaftLog_commitTo_def not_le [symmetric])
  have full: "\<exists>r'. handleSnapshot r m = Inr r'
          \<and> RaftLog r' = RaftLog_restore (RaftLog r) s md
          \<and> entries (RaftLog r') = [] \<and> committed (RaftLog r') = SIndex md
          \<and> pending_snapshot (RaftLog r') = Some s
          \<and> RaftLog_LastIndex (RaftLog r') = SIndex md
          \<and> (\<forall>n. map_of (Prs r') n =
                (if n \<in> set (Nodes cs)
                 then Some \<lparr>Match = (if n = raft_id r then SIndex md else 0),
                            Next = SIndex md + 1\<rparr>
                 else None))
          \<and> msgs r' = msgs r @
                [emptyMessage\<lparr>To := From m, From := raft_id r, MTerm := Term r,
                   MsgType := MsgAppendResponse, MIndex := SIndex md\<rparr>]"
    if "committed (RaftLog r) < SIndex md"
      "\<not> RaftLog_matchTerm (RaftLog r) (SIndex md) (STerm md)" "ConfState md = Some cs"
  proof -
    have li: "RaftLog_LastIndex (RaftLog_restore (RaftLog r) s md) = SIndex md"
      by (simp add: RaftLog_LastIndex_def RaftLog_restore_def)
    have nle: "\<not> SIndex md \<le> committed (RaftLog r)"
      using that(1) by simp
    show ?thesis
      using assms that(2,3) nle
      by (simp add: handleSnapshot_def restore_def andThen_def send_AppendResponse Let_def
          restoreNode_fold li map_of_fold_update)
        (simp add: RaftLog_restore_def)
  qed
  from stale fast full show ?thesis by blast
qed


theorem handleSnapshot_cases_example:
  "handleSnapshot ex_follower (ex_snapshot_msg 1 2) =
     Inr (ex_follower\<lparr>msgs :=
       [emptyMessage\<lparr>To := 2, From := 1, MTerm := 3, MsgType := MsgAppendResponse,
          MIndex := 1\<rparr>]\<rparr>)
   \<and> handleSnapshot ex_follower (ex_snapshot_msg 3 3) =
     Inr (ex_follower\<lparr>RaftLog := ex_log\<lparr>committed := 3\<rparr>, msgs :=
       [emptyMessage\<lparr>To := 2, From := 1, MTerm := 3, MsgType := MsgAppendResponse,
          MIndex := 3\<rparr>]\<rparr>)
   \<and> (\<exists>r'. handleSnapshot ex_follower (ex_snapshot_msg 5 3) = Inr r'
         \<and> entries (RaftLog r') = [] \<and> committed (RaftLog r') = 5
         \<and> map_of (Prs r') 1 = Some \<lparr>Match = 5, Next = 6\<rparr>
         \<and> map_of (Prs r') 2 = Some \<lparr>Match = 0, Next = 6\<rparr>
         \<and> map_of (Prs r') 4 = None
         \<and> msgs r' =
             [emptyMessage\<lparr>To := 2, From := 1, MTerm := 3, MsgType := MsgAppendResponse,
                MIndex := 5\<rparr>])"
proof -
  have f: "RaftLog ex_follower = ex_log" "committed ex_log = 1" "msgs ex_follower = []"
      "raft_id ex_follower = 1" "Term ex_follower = 3"
    by (simp_all add: ex_follower_def ex_leader_def ex_log_def)
  have m: "MSnapshot (ex_snapshot_msg i t) = Some (ex_snapshot i t)"
      "From (ex_snapshot_msg i t) = 2" for i t
    by (simp_all add: ex_snapshot_msg_def emptyMessage_def)
  have s: "Metadata (ex_snapshot i t)
      = Some \<lparr>ConfState = Some \<lparr>Nodes = [1, 2, 3]\<rparr>, SIndex = i, STerm = t\<rparr>" for i t
    by (simp add: ex_snapshot_def)
  from handleSnapshot_cases [OF m(1) s, of 1 2 ex_follower]
  have 1: "handleSnapshot ex_follower (ex_snapshot_msg 1 2) =
     Inr (ex_follower\<lparr>msgs :=
       [emptyMessage\<lparr>To := 2, From := 1, MTerm := 3, MsgType := MsgAppendResponse,
          MIndex := 1\<rparr>]\<rparr>)"
    by (simp add: f m)
  from handleSnapshot_cases [OF m(1) s, of 3 3 ex_follower]
  have 2: "handleSnapshot ex_follower (ex_snapshot_msg 3 3) =
     Inr (ex_follower\<lparr>RaftLog := ex_log\<lparr>committed := 3\<rparr>, msgs :=
       [emptyMessage\<lparr>To := 2, From := 1, MTerm := 3, MsgType := MsgAppendResponse,
          MIndex := 3\<rparr>]\<rparr>)"
    by (simp add: f m RaftLog_matchTerm_def ex_log_Term_3)
  from handleSnapshot_cases [OF m(1) s, of 5 3 ex_follower "\<lparr>Nodes = [1, 2, 3]\<rparr>"]
  have 3: "\<exists>r'. handleSnapshot ex_follower (ex_snapshot_msg 5 3) = Inr r'
         \<and> entries (RaftLog r') = [] \<and> committed (RaftLog r') = 5
         \<and> map_of (Prs r') 1 = Some \<lparr>Match = 5, Next = 6\<rparr>
         \<and> map_of (Prs r') 2 = Some \<lparr>Match = 0, Next = 6\<rparr>
         \<and> map_of (Prs r') 4 = None
         \<and> msgs r' =
             [emptyMessage\<lparr>To := 2, From := 1, MTerm := 3, MsgType := MsgAppendResponse,
                MIndex := 5\<rparr>]"
    by (auto simp: f m RaftLog_matchTerm_def ex_log_Term_5)
  from 1 2 3 show ?thesis by blast
qed

text \<open>
  C7. A proposal is a local message: it carries entries and no term. For such
  a message with at least one entry, \<open>Step\<close> returns ErrProposalDropped
  exactly when the node is a follower, or a candidate, or a leader that is
  absent from its own progress map or has a leadership transfer in flight.
  Whenever ErrProposalDropped is returned the structure is the one \<open>Step\<close>
  found: no entry was appended and no message was sent.
\<close>

theorem Propose_dropped_iff:
  assumes "MsgType m = MsgPropose" and "Entries m \<noteq> []" and "MTerm m = 0"
  shows "((\<exists>r'. Step r m = Inr (Some ErrProposalDropped, r')) \<longleftrightarrow>
           (State r = StateFollower \<or> State r = StateCandidate \<or>
            (State r = StateLeader \<and>
               (map_of (Prs r) (raft_id r) = None \<or> leadTransferee r \<noteq> None_id))))
       \<and> (\<forall>r'. Step r m = Inr (Some ErrProposalDropped, r') \<longrightarrow> r' = r)"
proof (cases "State r")
  case StateFollower
  then show ?thesis using assms by (simp add: Step_def Step_dispatch_def stepFollower_def)
next
  case StateCandidate
  then show ?thesis using assms by (simp add: Step_def Step_dispatch_def stepCandidate_def)
next
  case StateLeader
  then show ?thesis using assms
    by (auto simp: Step_def Step_dispatch_def stepLeader_def Let_def appendEntry_def andThen_def
        split: prod.splits)
qed

theorem Propose_dropped_iff_example:
  "Step ex_follower ex_proposal = Inr (Some ErrProposalDropped, ex_follower)
   \<and> Step (ex_leader\<lparr>leadTransferee := 2\<rparr>) ex_proposal
       = Inr (Some ErrProposalDropped, ex_leader\<lparr>leadTransferee := 2\<rparr>)
   \<and> Step ex_leader ex_proposal \<noteq> Inr (Some ErrProposalDropped, ex_leader)"
proof -
  have m: "MsgType ex_proposal = MsgPropose" "Entries ex_proposal \<noteq> []" "MTerm ex_proposal = 0"
    by (simp_all add: ex_proposal_def emptyMessage_def)
  have f: "State ex_follower = StateFollower"
    by (simp add: ex_follower_def)
  have t: "State (ex_leader\<lparr>leadTransferee := 2\<rparr>) = StateLeader"
      "leadTransferee (ex_leader\<lparr>leadTransferee := 2\<rparr>) \<noteq> None_id"
    by (simp_all add: ex_leader_def None_id_def)
  have l: "State ex_leader = StateLeader" "leadTransferee ex_leader = None_id"
      "map_of (Prs ex_leader) (raft_id ex_leader) \<noteq> None"
    by (simp_all add: ex_leader_def None_id_def)
  from Propose_dropped_iff [OF m, of ex_follower] f
  have 1: "Step ex_follower ex_proposal = Inr (Some ErrProposalDropped, ex_follower)" by auto
  from Propose_dropped_iff [OF m, of "ex_leader\<lparr>leadTransferee := 2\<rparr>"] t
  have 2: "Step (ex_leader\<lparr>leadTransferee := 2\<rparr>) ex_proposal
       = Inr (Some ErrProposalDropped, ex_leader\<lparr>leadTransferee := 2\<rparr>)" by auto
  from Propose_dropped_iff [OF m, of ex_leader] l
  have 3: "Step ex_leader ex_proposal \<noteq> Inr (Some ErrProposalDropped, ex_leader)" by auto
  from 1 2 3 show ?thesis by simp
qed


text \<open>
  C9 (as amended). For a valid configuration with exactly one peer on a fresh
  store, \<open>newRaft\<close> returns a follower at term 0 that has no leader, has
  cast no vote and sent nothing, whose log is the one read from the store, and
  whose progress map holds the one peer: constructing the node does not
  campaign. The counterexample builds the node of the one-peer scenario: it is
  a follower at term 0 with an empty log.
\<close>

theorem newRaft_single_peer_is_follower:
  assumes "validate c = None" and "peers c = [p]" and "CStorage c = Some st"
    and "InitialState st = Inr (hs, cs)" and "Nodes cs = []" and "IsEmptyHardState hs"
    and "Applied c = 0"
  shows "\<exists>r. newRaft c rnd calls = Inr r \<and> State r = StateFollower \<and> Term r = 0
           \<and> Vote r = None_id \<and> Lead r = None_id \<and> msgs r = [] \<and> RaftLog r = newLog st
           \<and> map fst (Prs r) = [p]"
proof -
  from assms(1) have et: "0 < ElectionTick c"
    by (auto simp: validate_def split: if_splits)
  show ?thesis
    using assms et
    by (simp add: newRaft_def Let_def andThen_def becomeFollower_def reset_def
        resetRandomizedElectionTimeout_def abortLeaderTransfer_def None_id_def)
qed

theorem newRaft_single_peer_is_follower_example:
  "\<exists>r. newRaft ex_config ex_rand 0 = Inr r \<and> State r = StateFollower \<and> Term r = 0
      \<and> Vote r = None_id \<and> Lead r = None_id \<and> msgs r = [] \<and> RaftLog r = newLog ex_storage
      \<and> map fst (Prs r) = [1]"
  using newRaft_single_peer_is_follower
    [of ex_config 1 ex_storage "\<lparr>HTerm = 0, HVote = 0, HCommit = 0\<rparr>" "\<lparr>Nodes = []\<rparr>" ex_rand 0]
  by (simp add: ex_config_def ex_storage_def validate_def None_id_def IsEmptyHardState_def)

theorem newRaft_single_peer_counterexample:
  "newRaft ex_config ex_rand 0 = Inr ex_fresh_node
   \<and> State ex_fresh_node = StateFollower \<and> Term ex_fresh_node = 0
   \<and> entries (RaftLog ex_fresh_node) = [] \<and> committed (RaftLog ex_fresh_node) = 0
   \<and> msgs ex_fresh_node = []"
  by (simp add: newRaft_def validate_def ex_config_def ex_storage_def None_id_def
      IsEmptyHardState_def Let_def andThen_def becomeFollower_def reset_def
      resetRandomizedElectionTimeout_def abortLeaderTransfer_def newLog_def
      RaftLog_LastIndex_def ex_rand_def ex_fresh_node_def)

text \<open>
  C10. On a node that is not the leader, with \<open>applied\<close> below
  \<open>committed\<close> and a configuration change among the entries
  \<open>(applied, committed]\<close> of the log, a MsgHup (a local message, without a
  term) does not start a campaign: \<open>Step\<close> returns nil and the structure
  is unchanged, so the role and the term are kept and no vote request is in
  the mailbox.
\<close>

theorem Hup_with_pending_conf_change:
  assumes "State r \<noteq> StateLeader" and "MsgType m = MsgHup" and "MTerm m = 0"
    and "applied (RaftLog r) < committed (RaftLog r)"
    and "RaftLog_slice (RaftLog r) (applied (RaftLog r) + 1) (committed (RaftLog r) + 1)
           = Inr ents"
    and "\<exists>e\<in>set ents. EntryType e = EntryConfChange"
  shows "Step r m = Inr (None, r)"
  using assms numOfPendingConf_pos [OF assms(6)]
  by (simp add: Step_def Step_dispatch_def)

theorem Hup_with_pending_conf_change_example:
  "Step (ex_follower\<lparr>RaftLog := ex_log\<lparr>committed := 2, applied := 1\<rparr>\<rparr>)
     (emptyMessage\<lparr>MsgType := MsgHup, From := 1\<rparr>)
   = Inr (None, ex_follower\<lparr>RaftLog := ex_log\<lparr>committed := 2, applied := 1\<rparr>\<rparr>)"
proof -
  let ?r = "ex_follower\<lparr>RaftLog := ex_log\<lparr>committed := 2, applied := 1\<rparr>\<rparr>"
  let ?m = "emptyMessage\<lparr>MsgType := MsgHup, From := 1\<rparr>"
  have s: "RaftLog_slice (RaftLog ?r) (applied (RaftLog ?r) + 1) (committed (RaftLog ?r) + 1)
      = Inr [\<lparr>EntryType = EntryConfChange, ETerm = 2, EIndex = 2, Data = []\<rparr>]"
    by (simp add: RaftLog_slice_def RaftLog_firstIndex_def RaftLog_LastIndex_def ex_log_def)
  have "State ?r \<noteq> StateLeader" "MsgType ?m = MsgHup" "MTerm ?m = 0"
      "applied (RaftLog ?r) < committed (RaftLog ?r)"
    by (simp_all add: ex_follower_def ex_leader_def emptyMessage_def)
  from Hup_with_pending_conf_change [OF this s] show ?thesis by simp
qed

end
